theory Spec2Isabelle
  imports Complex_Main "HOL-Library.Word"
begin

section \<open>Data model of island.c\<close>

text \<open>
  The structs of \<^verbatim>\<open>island.c\<close> become records. Field names carry a short prefix
  (\<open>ts_\<close>, \<open>col_\<close>, \<open>drip_\<close>, \<open>cloud_\<close>) because several structs share the names
  \<^verbatim>\<open>height\<close>, \<^verbatim>\<open>speed\<close>, \<^verbatim>\<open>x\<close> and \<^verbatim>\<open>y\<close>.

  \<^item> \<^verbatim>\<open>size_t\<close> is a 64-bit word: \<open>+\<close>, \<open>-\<close> and \<open>*\<close> wrap around as in C.
  \<^item> \<^verbatim>\<open>uint8_t\<close> flags are 8-bit words, tested against 0 as the C conditions do.
  \<^item> \<^verbatim>\<open>float\<close> and \<^verbatim>\<open>double\<close> values are exact real numbers: rounding is not
    modelled. A division by zero and a conversion of a value outside the target integer
    type leave this arithmetic; they are results of type \<open>error\<close>.
  \<^item> An array behind a pointer is a list whose length is the number of allocated
    elements. An access beyond it is the result \<open>Out_of_bounds\<close>.
  \<^item> A pointer argument is an \<open>option\<close>: \<open>None\<close> is the null pointer.
  \<^item> The \<^verbatim>\<open>term\<close> pointers stored in \<^verbatim>\<open>water_t\<close>, \<^verbatim>\<open>drips_t\<close> and \<^verbatim>\<open>cloud_t\<close>
    all point to the one \<^verbatim>\<open>termsize_t\<close> of \<^verbatim>\<open>main\<close>, and only \<^verbatim>\<open>termsize_update\<close>
    writes to it. The functions that read it through those pointers take it as their
    first argument.
  \<^item> A function returns the C return code together with the objects it was given, as
    they are after the call.
\<close>

type_synonym size_t = "64 word"
type_synonym uint8_t = "8 word"

datatype error = Out_of_bounds | Float_to_int_range | Float_div_by_zero

record termsize_t =
  ts_width :: size_t
  ts_height :: size_t
  ts_updated :: uint8_t

record winsize =
  ws_row :: "16 word"
  ws_col :: "16 word"

record water_column_t =
  col_height :: real
  col_speed :: real
  ldelta :: real
  rdelta :: real

record water_t =
  cols :: "water_column_t list"
  target_height :: real
  island_y :: size_t

definition FRAME_RATE :: real where
  "FRAME_RATE = 10"

definition GRAVITY :: real where
  "GRAVITY = 9.8 / FRAME_RATE"

definition WATER_TENSION :: real where
  "WATER_TENSION = 0.025"

definition WATER_DAMPENING :: real where
  "WATER_DAMPENING = 0.025"

definition WATER_SPREAD :: real where
  "WATER_SPREAD = 0.25"

section \<open>termsize_update\<close>

text \<open>
  The first argument is what \<^verbatim>\<open>ioctl(STDIN_FILENO, TIOCGWINSZ, &ws)\<close> does: \<open>None\<close> when
  it returns non-zero, \<open>Some ws\<close> when it fills \<^verbatim>\<open>ws\<close> and returns 0. The fields
  \<^verbatim>\<open>ws_col\<close> and \<^verbatim>\<open>ws_row\<close> are \<^verbatim>\<open>unsigned short\<close> and are widened to \<^verbatim>\<open>size_t\<close>.
\<close>

fun termsize_update :: "winsize option \<Rightarrow> termsize_t option \<Rightarrow> int \<times> termsize_t option" where
  "termsize_update io None = (-1, None)"
| "termsize_update None (Some t) = (-2, Some t)"
| "termsize_update (Some ws) (Some t) =
     (if ucast (ws_col ws) \<noteq> ts_width t \<or> ucast (ws_row ws) \<noteq> ts_height t
      then (0, Some (t\<lparr>ts_width := ucast (ws_col ws), ts_height := ucast (ws_row ws),
                        ts_updated := 1\<rparr>))
      else (0, Some (t\<lparr>ts_updated := 0\<rparr>)))"

section \<open>water_update\<close>

text \<open>
  \<^verbatim>\<open>realloc(cols, sizeof(water_column_t) * width)\<close>. The byte count is computed in
  \<^verbatim>\<open>size_t\<close>; the block it returns holds as many whole columns as fit in that many
  bytes, the old contents first. The second argument is the allocator's answer: \<open>None\<close>
  when it returns the null pointer (the old block is then untouched), \<open>Some c\<close> when it
  succeeds, \<open>c\<close> being what the fresh part of the block happens to contain.
\<close>

definition sizeof_water_column_t :: size_t where
  "sizeof_water_column_t = 16"

definition realloc_cols ::
    "water_column_t list \<Rightarrow> water_column_t option \<Rightarrow> size_t \<Rightarrow> water_column_t list option" where
  "realloc_cols old a nbytes =
     (case a of
        None \<Rightarrow> None
      | Some c \<Rightarrow>
          (let n = unat nbytes div unat sizeof_water_column_t
           in Some (take n old @ replicate (n - length old) c)))"

text \<open>Lines 168 to 171: every column gets the target height and speed 0.\<close>

definition reset_col :: "real \<Rightarrow> water_column_t \<Rightarrow> water_column_t" where
  "reset_col target c = c\<lparr>col_height := target, col_speed := 0\<rparr>"

definition reset_cols :: "size_t \<Rightarrow> real \<Rightarrow> water_column_t list \<Rightarrow> water_column_t list" where
  "reset_cols w target cs = fold (\<lambda>i cs. cs[i := reset_col target (cs ! i)]) [0..<unat w] cs"

text \<open>Lines 175 to 180: the restoring force on one column, then on all of them.\<close>

definition restore_col :: "real \<Rightarrow> water_column_t \<Rightarrow> water_column_t" where
  "restore_col target c =
     (let s = col_speed c +
                (WATER_TENSION * (target - col_height c) - col_speed c * WATER_DAMPENING)
      in c\<lparr>col_speed := s, col_height := col_height c + s\<rparr>)"

definition restore_cols :: "size_t \<Rightarrow> real \<Rightarrow> water_column_t list \<Rightarrow> water_column_t list" where
  "restore_cols w target cs = fold (\<lambda>i cs. cs[i := restore_col target (cs ! i)]) [0..<unat w] cs"

text \<open>
  Lines 183 to 192, the body of the first inner loop at index \<open>i\<close>: the deltas of
  column \<open>i\<close> are stored in the column and added to the speeds of its neighbours. The
  test \<^verbatim>\<open>i < width - 1\<close> is a \<^verbatim>\<open>size_t\<close> comparison.
\<close>

definition spread_delta_step :: "size_t \<Rightarrow> nat \<Rightarrow> water_column_t list \<Rightarrow> water_column_t list" where
  "spread_delta_step w i cs =
     (let cs1 =
        (if 0 < i then
           (let cs' = cs[i := (cs ! i)\<lparr>ldelta :=
                         WATER_SPREAD * (col_height (cs ! i) - col_height (cs ! (i - 1)))\<rparr>]
            in cs'[i - 1 := (cs' ! (i - 1))\<lparr>col_speed :=
                         col_speed (cs' ! (i - 1)) + ldelta (cs' ! i)\<rparr>])
         else cs)
      in if (of_nat i :: size_t) < w - 1 then
           (let cs' = cs1[i := (cs1 ! i)\<lparr>rdelta :=
                         WATER_SPREAD * (col_height (cs1 ! i) - col_height (cs1 ! (i + 1)))\<rparr>]
            in cs'[i + 1 := (cs' ! (i + 1))\<lparr>col_speed :=
                         col_speed (cs' ! (i + 1)) + rdelta (cs' ! i)\<rparr>])
         else cs1)"

text \<open>Lines 193 to 200, the body of the second inner loop: the deltas move the heights.\<close>

definition spread_height_step :: "size_t \<Rightarrow> nat \<Rightarrow> water_column_t list \<Rightarrow> water_column_t list" where
  "spread_height_step w i cs =
     (let cs1 =
        (if 0 < i then
           cs[i - 1 := (cs ! (i - 1))\<lparr>col_height :=
                         col_height (cs ! (i - 1)) + ldelta (cs ! i)\<rparr>]
         else cs)
      in if (of_nat i :: size_t) < w - 1 then
           cs1[i + 1 := (cs1 ! (i + 1))\<lparr>col_height :=
                         col_height (cs1 ! (i + 1)) + rdelta (cs1 ! i)\<rparr>]
         else cs1)"

text \<open>One iteration of the loop over \<^verbatim>\<open>j\<close>: one lateral spread pass.\<close>

definition spread_pass :: "size_t \<Rightarrow> water_column_t list \<Rightarrow> water_column_t list" where
  "spread_pass w cs =
     fold (spread_height_step w) [0..<unat w] (fold (spread_delta_step w) [0..<unat w] cs)"

text \<open>
  Lines 175 to 202. Every loop runs \<^verbatim>\<open>i\<close> from 0 to \<^verbatim>\<open>width - 1\<close> and touches
  \<^verbatim>\<open>cols[i]\<close>, so the accesses stay inside the array exactly when it holds at least
  \<^verbatim>\<open>width\<close> columns.
\<close>

definition water_physics :: "termsize_t \<Rightarrow> water_t \<Rightarrow> error + (int \<times> water_t option)" where
  "water_physics t w =
     (if length (cols w) < unat (ts_width t) then Inl Out_of_bounds
      else Inr (0, Some (w\<lparr>cols :=
             fold (\<lambda>j. spread_pass (ts_width t)) [0..<8]
               (restore_cols (ts_width t) (target_height w) (cols w))\<rparr>)))"

fun water_update ::
    "termsize_t \<Rightarrow> water_column_t option \<Rightarrow> water_t option \<Rightarrow> error + (int \<times> water_t option)" where
  "water_update t a None = Inr (-1, None)"
| "water_update t a (Some w) =
     (if ts_updated t \<noteq> 0 then
        (case realloc_cols (cols w) a (sizeof_water_column_t * ts_width t) of
           None \<Rightarrow> Inr (-2, Some w)
         | Some tmp \<Rightarrow>
             (if length tmp < unat (ts_width t) then Inl Out_of_bounds
              else water_physics t
                     (w\<lparr>cols := reset_cols (ts_width t) 8 tmp,
                        target_height := 8,
                        island_y := (ts_height t * 3 div 4) - 1\<rparr>)))
      else water_physics t w)"

section \<open>Drips\<close>

text \<open>
  \<^verbatim>\<open>drip_t\<close> keeps \<^verbatim>\<open>x\<close> and \<^verbatim>\<open>y\<close> as \<^verbatim>\<open>size_t\<close> and only \<^verbatim>\<open>speed\<close> as a
  \<^verbatim>\<open>float\<close>. The pair of \<^verbatim>\<open>drips\<close> and \<^verbatim>\<open>size\<close> in \<^verbatim>\<open>drips_t\<close> is a list: \<^verbatim>\<open>size\<close> is
  its length.
\<close>

record drip_t =
  drip_active :: uint8_t
  drip_x :: size_t
  drip_y :: size_t
  drip_speed :: real

type_synonym drips_t = "drip_t list"

text \<open>
  Conversions between \<^verbatim>\<open>size_t\<close> and the floating types. From a floating value the
  fractional part is discarded; C leaves the conversion undefined when the integral part
  does not fit the integer type.
\<close>

definition size_t_to_float :: "size_t \<Rightarrow> real" where
  "size_t_to_float n = real (unat n)"

definition c_truncate :: "real \<Rightarrow> int" where
  "c_truncate r = (if 0 \<le> r then \<lfloor>r\<rfloor> else \<lceil>r\<rceil>)"

definition float_to_size_t :: "real \<Rightarrow> error + size_t" where
  "float_to_size_t r =
     (if r \<le> -1 \<or> 2 ^ 64 \<le> r then Inl Float_to_int_range else Inr (word_of_int (c_truncate r)))"

definition float_to_int :: "real \<Rightarrow> error + int" where
  "float_to_int r =
     (if r \<le> - (2 ^ 31) - 1 \<or> 2 ^ 31 \<le> r then Inl Float_to_int_range else Inr (c_truncate r))"

definition drips_init :: "drips_t" where
  "drips_init = []"

text \<open>Lines 365 to 369: the index of the first inactive slot, or the size of the pool.\<close>

fun first_inactive :: "drip_t list \<Rightarrow> nat" where
  "first_inactive [] = 0"
| "first_inactive (d # ds) = (if drip_active d = 0 then 0 else Suc (first_inactive ds))"

text \<open>
  \<^verbatim>\<open>drips_generate\<close>. The second argument is the answer of \<^verbatim>\<open>realloc\<close> when the pool has
  to grow by one slot: \<open>None\<close> for the null pointer, \<open>Some d\<close> for a block whose new slot
  happens to contain \<open>d\<close>.
\<close>

fun drips_generate ::
    "termsize_t \<Rightarrow> drip_t option \<Rightarrow> drips_t option \<Rightarrow> size_t \<Rightarrow> int \<times> drips_t option" where
  "drips_generate t a None x = (-1, None)"
| "drips_generate t a (Some ds) x =
     (let i = first_inactive ds;
          spawn = (\<lambda>ds. ds[i := (ds ! i)\<lparr>drip_active := 1, drip_x := x,
                                          drip_y := (ts_height t - 2) * 8, drip_speed := 0\<rparr>])
      in if i = length ds then
           (case a of
              None \<Rightarrow> (-2, Some ds)
            | Some d \<Rightarrow> (0, Some (spawn (ds @ [d]))))
         else (0, Some (spawn ds)))"

text \<open>
  Lines 397 to 413, the body of the loop of \<^verbatim>\<open>drips_update\<close> at index \<open>i\<close>. The column
  is \<^verbatim>\<open>water->cols[drips->drips->x]\<close>: its index is the \<^verbatim>\<open>x\<close> of slot 0 of the pool.
\<close>

definition drip_step ::
    "termsize_t \<Rightarrow> nat \<Rightarrow> drips_t \<times> water_t \<Rightarrow> error + (drips_t \<times> water_t)" where
  "drip_step t i s =
     (case s of (ds, w) \<Rightarrow>
        if drip_active (ds ! i) \<noteq> 0 then
          (let v = drip_speed (ds ! i) - GRAVITY in
           case (if size_t_to_float (drip_y (ds ! i)) < v then Inr 0
                 else float_to_size_t (size_t_to_float (drip_y (ds ! i)) + v)) of
             Inl e \<Rightarrow> Inl e
           | Inr y' \<Rightarrow>
               (let ds1 = ds[i := (ds ! i)\<lparr>drip_speed := v, drip_y := y'\<rparr>];
                    x0 = unat (drip_x (ds1 ! 0))
                in if length (cols w) \<le> x0 then Inl Out_of_bounds
                   else if size_t_to_float y' \<le> col_height (cols w ! x0) then
                     (let w1 = w\<lparr>cols := (cols w)[x0 := (cols w ! x0)\<lparr>col_speed :=
                                          col_speed (cols w ! x0) + drip_speed (ds1 ! i)\<rparr>]\<rparr>;
                          ds2 = ds1[i := (ds1 ! i)\<lparr>drip_active := 0\<rparr>]
                      in if target_height w1 < size_t_to_float ((ts_height t - 3) * 8) then
                           (if ts_width t = 0 then Inl Float_div_by_zero
                            else Inr (ds2, w1\<lparr>target_height :=
                                   target_height w1 + 8 / size_t_to_float (ts_width t)\<rparr>))
                         else Inr (ds2, w1))
                   else Inr (ds1, w)))
        else Inr s)"

fun drips_loop ::
    "termsize_t \<Rightarrow> nat list \<Rightarrow> drips_t \<times> water_t \<Rightarrow> error + (drips_t \<times> water_t)" where
  "drips_loop t [] s = Inr s"
| "drips_loop t (i # is) s =
     (case drip_step t i s of Inl e \<Rightarrow> Inl e | Inr s' \<Rightarrow> drips_loop t is s')"

fun drips_update ::
    "termsize_t \<Rightarrow> drips_t option \<Rightarrow> water_t option \<Rightarrow>
     error + (int \<times> drips_t option \<times> water_t option)" where
  "drips_update t None wp = Inr (-1, None, wp)"
| "drips_update t (Some ds) None = Inr (-2, Some ds, None)"
| "drips_update t (Some ds) (Some w) =
     (case drips_loop t [0..<length ds] (ds, w) of
        Inl e \<Rightarrow> Inl e
      | Inr (ds', w') \<Rightarrow> Inr (0, Some ds', Some w'))"

text \<open>\<^verbatim>\<open>drips_update\<close> called \<open>n\<close> times in a row on the same pool and water field.\<close>

fun drips_updates ::
    "termsize_t \<Rightarrow> nat \<Rightarrow> drips_t \<times> water_t \<Rightarrow> error + (drips_t \<times> water_t)" where
  "drips_updates t 0 s = Inr s"
| "drips_updates t (Suc n) s =
     (case drips_update t (Some (fst s)) (Some (snd s)) of
        Inr (rc, Some ds', Some w') \<Rightarrow> drips_updates t n (ds', w')
      | Inr (rc, _, _) \<Rightarrow> Inl Out_of_bounds
      | Inl e \<Rightarrow> Inl e)"

text \<open>
  The middle case is never taken: given two objects, \<^verbatim>\<open>drips_update\<close> hands both back.
\<close>

section \<open>render\<close>

record cloud_t =
  cloud_pos :: real
  cloud_speed :: real
  drop_delay :: size_t
  drop_count :: size_t

definition drip_char :: string where
  "drip_char = [CHR 0xE2, CHR 0x97, CHR 0x8F]"

definition cloud_char :: "string list" where
  "cloud_char = ['' @@@ '', ''@@@@@'', '' @@@ '']"

definition water_chars :: "string list" where
  "water_chars =
     [ [CHR 0xE2, CHR 0x96, CHR 0x81], [CHR 0xE2, CHR 0x96, CHR 0x82],
      [CHR 0xE2, CHR 0x96, CHR 0x83], [CHR 0xE2, CHR 0x96, CHR 0x84],
      [CHR 0xE2, CHR 0x96, CHR 0x85], [CHR 0xE2, CHR 0x96, CHR 0x86],
      [CHR 0xE2, CHR 0x96, CHR 0x87], [CHR 0xE2, CHR 0x96, CHR 0x88]]"

definition fgcolors :: "nat list" where
  "fgcolors = [30, 31, 32, 33, 34, 35, 36, 37, 90, 91, 92, 93, 94, 95, 96, 97]"

definition bgcolors :: "nat list" where
  "bgcolors = [40, 41, 42, 43, 44, 45, 46, 47, 100, 101, 102, 103, 104, 105, 106, 107]"

datatype color_mode = CM_UNKNOWN | CM_CLOUD | CM_ISLAND | CM_WATER_FG | CM_WATER_BG

text \<open>
  What \<^verbatim>\<open>render\<close> prints: \<open>SetColor\<close> is an escape \<^verbatim>\<open>ESC [ ... m\<close> with its
  parameters, \<open>MoveCursor\<close> an escape \<^verbatim>\<open>ESC [ row ; col H\<close>, \<open>WriteGlyph\<close> a string
  printed as it is.
\<close>

datatype cmd = SetColor "nat list" | MoveCursor size_t size_t | WriteGlyph string

fun is_SetColor :: "cmd \<Rightarrow> bool" where
  "is_SetColor (SetColor ps) = True"
| "is_SetColor (MoveCursor r c) = False"
| "is_SetColor (WriteGlyph g) = False"

text \<open>The local variables \<^verbatim>\<open>move\<close> and \<^verbatim>\<open>color_mode\<close> of \<^verbatim>\<open>render\<close>.\<close>

record render_state =
  move :: uint8_t
  mode :: color_mode

text \<open>
  Lines 235 to 265, the tests of the island silhouette, all in \<^verbatim>\<open>size_t\<close>: the colour
  parameters the matching branch prints, or \<open>None\<close> when no branch matches.
\<close>

definition island_colour :: "termsize_t \<Rightarrow> water_t \<Rightarrow> size_t \<Rightarrow> size_t \<Rightarrow> nat list option" where
  "island_colour t w y x =
     (let half = ts_width t div 2; iy = island_y w in
      if y = iy - 5 \<and> (x = half - 3 \<or> x = half - 1 \<or> x = half + 1)
        then Some [fgcolors ! 4, bgcolors ! 2]
      else if y = iy - 4 \<and> (half - 2 \<le> x \<and> x \<le> half)
        then Some [fgcolors ! 4, bgcolors ! 2]
      else if y = iy - 3 \<and> (x = half - 3 \<or> x = half + 1)
        then Some [fgcolors ! 4, bgcolors ! 2]
      else if y = iy - 3 \<and> x = half - 1
        then Some [fgcolors ! 4, bgcolors ! 3]
      else if (y = iy - 2 \<or> y = iy - 1) \<and> x = half
        then Some [fgcolors ! 4, bgcolors ! 3]
      else if iy \<le> y \<and> half - (1 + 2 * (y - iy)) \<le> x \<and> x \<le> half + (1 + 2 * (y - iy))
        then Some [fgcolors ! 4, bgcolors ! 11]
      else None)"

text \<open>Lines 235 to 269: the island branches, and the reset that follows an island cell.\<close>

definition render_island ::
    "termsize_t \<Rightarrow> water_t \<Rightarrow> size_t \<Rightarrow> size_t \<Rightarrow> render_state \<Rightarrow> render_state \<times> cmd list" where
  "render_island t w y x st =
     (case island_colour t w y x of
        Some ps \<Rightarrow> (st\<lparr>mode := CM_ISLAND\<rparr>, [SetColor ps])
      | None \<Rightarrow>
          if mode st = CM_ISLAND
          then (st\<lparr>mode := CM_UNKNOWN\<rparr>, [SetColor [fgcolors ! 0, bgcolors ! 0]])
          else (st, []))"

text \<open>
  Line 274: the test that places a drip in the cell. Lines 272 to 286: the loop over
  the pool; its \<^verbatim>\<open>continue\<close> goes on with the next drip.
\<close>

definition drip_in_cell :: "termsize_t \<Rightarrow> size_t \<Rightarrow> size_t \<Rightarrow> drip_t \<Rightarrow> bool" where
  "drip_in_cell t y x d \<longleftrightarrow>
     drip_active d \<noteq> 0 \<and> y = (ts_height t * 8 - drip_y d) div 8 \<and> x = drip_x d"

fun render_drips ::
    "termsize_t \<Rightarrow> size_t \<Rightarrow> size_t \<Rightarrow> drip_t list \<Rightarrow> render_state \<Rightarrow> render_state \<times> cmd list" where
  "render_drips t y x [] st = (st, [])"
| "render_drips t y x (d # ds) st =
     (if drip_in_cell t y x d then
        (let c = (if mode st \<noteq> CM_WATER_FG then [SetColor [fgcolors ! 4]] else []);
             m = (if move st \<noteq> 0 then [MoveCursor (y + 1) (x + 1)] else []);
             r = render_drips t y x ds (st\<lparr>mode := CM_WATER_FG\<rparr>)
         in (fst r, c @ m @ [WriteGlyph drip_char] @ snd r))
      else render_drips t y x ds st)"

text \<open>
  Line 335: \<^verbatim>\<open>water_chars[(int)height % 8]\<close>. The remainder of C has the sign of the
  dividend, and a negative index is outside the table.
\<close>

definition water_glyph :: "real \<Rightarrow> error + string" where
  "water_glyph h =
     (case float_to_int h of
        Inl e \<Rightarrow> Inl e
      | Inr n \<Rightarrow>
          (let r = (if 0 \<le> n then n mod 8 else - ((- n) mod 8))
           in if r < 0 then Inl Out_of_bounds else Inr (water_chars ! nat r)))"

text \<open>Lines 303 to 337: the cell is dry, under water, or on the water line.\<close>

definition render_water ::
    "termsize_t \<Rightarrow> water_t \<Rightarrow> size_t \<Rightarrow> size_t \<Rightarrow> render_state \<Rightarrow>
     error + (render_state \<times> cmd list)" where
  "render_water t w y x st =
     (let y_water_height = size_t_to_float ((ts_height t - y) * 8) in
      if length (cols w) \<le> unat x then Inl Out_of_bounds
      else if col_height (cols w ! unat x) < y_water_height - 8 then
        (if mode st = CM_ISLAND then
           Inr (st\<lparr>move := 0\<rparr>,
                (if move st \<noteq> 0 then [MoveCursor (y + 1) (x + 1)] else []) @ [WriteGlyph '' ''])
         else Inr (st\<lparr>move := 1\<rparr>, []))
      else
        (let m = (if move st \<noteq> 0 then [MoveCursor (y + 1) (x + 1)] else []) in
         if y_water_height \<le> col_height (cols w ! unat x) then
           Inr (st\<lparr>move := 0, mode := CM_WATER_BG\<rparr>,
                m @ (if mode st \<noteq> CM_WATER_BG then [SetColor [bgcolors ! 4]] else [])
                  @ [WriteGlyph '' ''])
         else
           (case water_glyph (col_height (cols w ! unat x)) of
              Inl e \<Rightarrow> Inl e
            | Inr g \<Rightarrow>
                if mode st \<noteq> CM_WATER_FG \<and> mode st \<noteq> CM_ISLAND
                then Inr (st\<lparr>move := 0, mode := CM_WATER_FG\<rparr>,
                          m @ [SetColor [fgcolors ! 4, bgcolors ! 0], WriteGlyph g])
                else Inr (st\<lparr>move := 0\<rparr>, m @ [WriteGlyph g]))))"

text \<open>
  Lines 289 to 300: the cloud. \<^verbatim>\<open>(int)(cloud->pos/8)\<close> is converted only in rows 0 to 2,
  and compared with \<^verbatim>\<open>x\<close> as a \<^verbatim>\<open>size_t\<close>. Its \<^verbatim>\<open>continue\<close> ends the cell.
\<close>

definition render_cloud_water ::
    "termsize_t \<Rightarrow> water_t \<Rightarrow> cloud_t \<Rightarrow> size_t \<Rightarrow> size_t \<Rightarrow> render_state \<Rightarrow>
     error + (render_state \<times> cmd list)" where
  "render_cloud_water t w c y x st =
     (if y \<le> 2 then
        (case float_to_int (cloud_pos c / 8) of
           Inl e \<Rightarrow> Inl e
         | Inr n \<Rightarrow>
             if x = word_of_int n then
               Inr (st\<lparr>move := 1, mode := CM_CLOUD\<rparr>,
                    (if move st \<noteq> 0 then [MoveCursor (y + 1) (x + 1)] else [])
                      @ (if mode st \<noteq> CM_CLOUD then [SetColor [fgcolors ! 15, bgcolors ! 0]] else [])
                      @ [WriteGlyph (cloud_char ! unat y)])
             else render_water t w y x st)
      else render_water t w y x st)"

text \<open>Lines 234 to 337: the body of the loop over \<^verbatim>\<open>x\<close>, one cell.\<close>

definition render_cell ::
    "termsize_t \<Rightarrow> water_t \<Rightarrow> drips_t \<Rightarrow> cloud_t \<Rightarrow> size_t \<Rightarrow> size_t \<Rightarrow> render_state \<Rightarrow>
     error + (render_state \<times> cmd list)" where
  "render_cell t w ds c y x st =
     (let (st1, out1) = render_island t w y x st;
          (st2, out2) = render_drips t y x ds st1
      in case render_cloud_water t w c y x st2 of
           Inl e \<Rightarrow> Inl e
         | Inr (st3, out3) \<Rightarrow> Inr (st3, out1 @ out2 @ out3))"

text \<open>Lines 233 to 338: the cells of one row, from left to right.\<close>

fun render_row ::
    "termsize_t \<Rightarrow> water_t \<Rightarrow> drips_t \<Rightarrow> cloud_t \<Rightarrow> size_t \<Rightarrow> nat list \<Rightarrow> render_state \<Rightarrow>
     error + (render_state \<times> cmd list)" where
  "render_row t w ds c y [] st = Inr (st, [])"
| "render_row t w ds c y (x # xs) st =
     (case render_cell t w ds c y (of_nat x) st of
        Inl e \<Rightarrow> Inl e
      | Inr (st', out) \<Rightarrow>
          (case render_row t w ds c y xs st' of
             Inl e \<Rightarrow> Inl e
           | Inr (st'', out') \<Rightarrow> Inr (st'', out @ out')))"

text \<open>
  Lines 230 to 339: the rows from the top; each row starts with \<^verbatim>\<open>color_mode\<close> set to
  \<^verbatim>\<open>CM_UNKNOWN\<close>, and \<^verbatim>\<open>move\<close> is carried from row to row.
\<close>

fun render_rows ::
    "termsize_t \<Rightarrow> water_t \<Rightarrow> drips_t \<Rightarrow> cloud_t \<Rightarrow> nat list \<Rightarrow> render_state \<Rightarrow>
     error + (render_state \<times> cmd list)" where
  "render_rows t w ds c [] st = Inr (st, [])"
| "render_rows t w ds c (y # ys) st =
     (case render_row t w ds c (of_nat y) [0..<unat (ts_width t)] (st\<lparr>mode := CM_UNKNOWN\<rparr>) of
        Inl e \<Rightarrow> Inl e
      | Inr (st', out) \<Rightarrow>
          (case render_rows t w ds c ys st' of
             Inl e \<Rightarrow> Inl e
           | Inr (st'', out') \<Rightarrow> Inr (st'', out @ out')))"

text \<open>
  \<^verbatim>\<open>render\<close> tests none of its pointers; they are the objects themselves here. The
  result is what it prints.
\<close>

definition render :: "termsize_t \<Rightarrow> water_t \<Rightarrow> drips_t \<Rightarrow> cloud_t \<Rightarrow> error + cmd list" where
  "render t w ds c =
     (case render_rows t w ds c [0..<unat (ts_height t)] \<lparr>move = 1, mode = CM_UNKNOWN\<rparr> of
        Inl e \<Rightarrow> Inl e
      | Inr (st, out) \<Rightarrow> Inr out)"

section \<open>Notions used in the statements\<close>

text \<open>A field is flat at \<open>T\<close> when every column stands at height \<open>T\<close> with speed 0.\<close>

definition flat :: "real \<Rightarrow> water_column_t list \<Rightarrow> bool" where
  "flat T cs = list_all (\<lambda>c. col_height c = T \<and> col_speed c = 0) cs"

text \<open>
  The energy of a column around the target height \<open>T\<close>, in the units in which the
  restoring force of lines 176 to 179 acts on it.
\<close>

definition column_energy :: "real \<Rightarrow> water_column_t \<Rightarrow> real" where
  "column_energy T c =
     WATER_TENSION * (col_height c - T)\<^sup>2 + (1 - WATER_DAMPENING) * (col_speed c)\<^sup>2"

text \<open>
  The slots among the first \<open>k\<close> whose drip was active before a call of
  \<^verbatim>\<open>drips_update\<close> and is inactive after it, and those of the whole pool: the drips that
  met the water in that call.
\<close>

definition hits :: "drips_t \<Rightarrow> drips_t \<Rightarrow> nat \<Rightarrow> nat list" where
  "hits ds ds' k = filter (\<lambda>i. drip_active (ds ! i) \<noteq> 0 \<and> drip_active (ds' ! i) = 0) [0..<k]"

definition contacts :: "drips_t \<Rightarrow> drips_t \<Rightarrow> nat list" where
  "contacts ds ds' =
     filter (\<lambda>i. drip_active (ds ! i) \<noteq> 0 \<and> drip_active (ds' ! i) = 0) [0..<length ds]"

text \<open>
  Line 409: the bound \<^verbatim>\<open>(height-3)*8\<close>, computed in \<^verbatim>\<open>size_t\<close> and compared as a
  floating value. Line 410: the amount \<^verbatim>\<open>8.0 / width\<close>.
\<close>

definition target_cap :: "termsize_t \<Rightarrow> real" where
  "target_cap t = size_t_to_float ((ts_height t - 3) * 8)"

definition target_raise :: "termsize_t \<Rightarrow> real" where
  "target_raise t = 8 / size_t_to_float (ts_width t)"

definition no_SetColor :: "cmd list \<Rightarrow> bool" where
  "no_SetColor out = list_all (\<lambda>c. \<not> is_SetColor c) out"

section \<open>Example data\<close>

text \<open>An active drip at column \<open>x\<close>, height \<open>y\<close> and speed \<open>v\<close>.\<close>

definition drip_at :: "size_t \<Rightarrow> size_t \<Rightarrow> real \<Rightarrow> drip_t" where
  "drip_at x y v = \<lparr>drip_active = 1, drip_x = x, drip_y = y, drip_speed = v\<rparr>"

text \<open>Example data: a column at a given height and speed, and a column at rest.\<close>

definition column_at :: "real \<Rightarrow> real \<Rightarrow> water_column_t" where
  "column_at h v = \<lparr>col_height = h, col_speed = v, ldelta = 0, rdelta = 0\<rparr>"

definition col0 :: water_column_t where
  "col0 = \<lparr>col_height = 8, col_speed = 0, ldelta = 0, rdelta = 0\<rparr>"

text \<open>
  A terminal of 40 columns and 20 rows with the water at rest, as \<^verbatim>\<open>water_update\<close>
  leaves it after a resize.
\<close>

definition t40x20 :: termsize_t where
  "t40x20 = \<lparr>ts_width = 40, ts_height = 20, ts_updated = 0\<rparr>"

definition w40 :: water_t where
  "w40 = \<lparr>cols = replicate 40 col0, target_height = 8, island_y = 14\<rparr>"

text \<open>
  A terminal of 4 columns and 20 rows, with columns of different heights and a pool of
  three drips; the drip of slot 0 is over column 1.
\<close>

definition t4x20 :: termsize_t where
  "t4x20 = \<lparr>ts_width = 4, ts_height = 20, ts_updated = 0\<rparr>"

definition w4 :: water_t where
  "w4 = \<lparr>cols = [column_at 8 0, column_at 12 0, column_at 30 0, column_at 2 0],
          target_height = 8, island_y = 14\<rparr>"

definition pool3 :: drips_t where
  "pool3 = [drip_at 1 40 0, drip_at 3 9 (- 2), drip_at 2 25 0]"

text \<open>
  A terminal of 4 columns and 3 rows with the water at rest, as \<^verbatim>\<open>water_update\<close>
  leaves it after a resize.
\<close>

definition t4x3 :: termsize_t where
  "t4x3 = \<lparr>ts_width = 4, ts_height = 3, ts_updated = 0\<rparr>"

definition w4x3 :: water_t where
  "w4x3 = \<lparr>cols = [col0, col0, col0, col0], target_height = 8, island_y = 1\<rparr>"

text \<open>
  A terminal of 8 columns and 4 rows with the water at rest, as \<^verbatim>\<open>water_update\<close>
  leaves it after a resize, and a cloud at the left edge.
\<close>

definition t8x4 :: termsize_t where
  "t8x4 = \<lparr>ts_width = 8, ts_height = 4, ts_updated = 0\<rparr>"

definition w8 :: water_t where
  "w8 = \<lparr>cols = replicate 8 col0, target_height = 8, island_y = 2\<rparr>"

definition cloud0 :: cloud_t where
  "cloud0 = \<lparr>cloud_pos = 0, cloud_speed = 1, drop_delay = 30, drop_count = 0\<rparr>"

section \<open>Properties of the water field\<close>

subsection \<open>Array lengths\<close>

lemma length_fold_update:
  "length (fold (\<lambda>i cs. cs[i := f i cs]) is cs) = length cs"
  by (induction "is" arbitrary: cs) auto

lemma length_reset_cols: "length (reset_cols w T cs) = length cs"
  by (simp add: reset_cols_def length_fold_update)

lemma length_restore_cols: "length (restore_cols w T cs) = length cs"
  by (simp add: restore_cols_def length_fold_update)

lemma length_spread_delta_step: "length (spread_delta_step w i cs) = length cs"
  by (simp add: spread_delta_step_def Let_def)

lemma length_spread_height_step: "length (spread_height_step w i cs) = length cs"
  by (simp add: spread_height_step_def Let_def)

lemma length_fold_steps:
  "(\<And>i cs. length (f i cs) = length cs) \<Longrightarrow> length (fold f is cs) = length cs"
  by (induction "is" arbitrary: cs) auto

lemma length_spread_pass: "length (spread_pass w cs) = length cs"
  by (simp add: spread_pass_def length_fold_steps length_spread_delta_step length_spread_height_step)

lemma length_spread_passes: "length (fold (\<lambda>j. spread_pass w) js cs) = length cs"
  by (induction js arbitrary: cs) (auto simp: length_spread_pass)

lemma unat_sizeof_mult:
  "unat (w :: size_t) < 2 ^ 60 \<Longrightarrow> unat (sizeof_water_column_t * w) div unat sizeof_water_column_t = unat w"
  by (simp add: sizeof_water_column_t_def unat_word_ariths)

lemma length_realloc_cols:
  "unat (w :: size_t) < 2 ^ 60 \<Longrightarrow> realloc_cols old (Some c) (sizeof_water_column_t * w) = Some tmp
   \<Longrightarrow> length tmp = unat w"
  by (auto simp: realloc_cols_def Let_def unat_sizeof_mult)

lemma water_physics_length:
  "unat (ts_width t) \<le> length (cols w) \<Longrightarrow>
   \<exists>w'. water_physics t w = Inr (0, Some w') \<and> length (cols w') = length (cols w)
     \<and> target_height w' = target_height w \<and> island_y w' = island_y w"
  by (simp add: water_physics_def length_spread_passes length_restore_cols)

lemma fold_update_nth:
  "n \<le> length cs \<Longrightarrow>
   fold (\<lambda>i cs. cs[i := f (cs ! i)]) [0..<n] cs = map f (take n cs) @ drop n cs"
proof (induction n)
  case 0
  then show ?case by simp
next
  case (Suc n)
  then have n: "n < length cs" by simp
  have "fold (\<lambda>i cs. cs[i := f (cs ! i)]) [0..<Suc n] cs =
        (map f (take n cs) @ drop n cs)[n := f ((map f (take n cs) @ drop n cs) ! n)]"
    using Suc by simp
  also have "\<dots> = map f (take n cs) @ (drop n cs)[0 := f (cs ! n)]"
    using n by (simp add: list_update_append nth_append)
  also have "\<dots> = map f (take (Suc n) cs) @ drop (Suc n) cs"
    using n by (simp add: take_Suc_conv_app_nth Cons_nth_drop_Suc [symmetric])
  finally show ?case .
qed


lemma flat_nth: "flat T cs \<longleftrightarrow> (\<forall>i<length cs. col_height (cs ! i) = T \<and> col_speed (cs ! i) = 0)"
  by (simp add: flat_def list_all_length)

lemma reset_cols_eq:
  "unat w \<le> length cs \<Longrightarrow>
   reset_cols w T cs = map (reset_col T) (take (unat w) cs) @ drop (unat w) cs"
  unfolding reset_cols_def by (rule fold_update_nth)

lemma restore_cols_eq:
  "unat w \<le> length cs \<Longrightarrow>
   restore_cols w T cs = map (restore_col T) (take (unat w) cs) @ drop (unat w) cs"
  unfolding restore_cols_def by (rule fold_update_nth)

lemma flat_reset_cols: "length cs = unat w \<Longrightarrow> flat T (reset_cols w T cs)"
  by (simp add: reset_cols_eq flat_def list_all_iff reset_col_def)

lemma flat_restore_cols: "flat T cs \<Longrightarrow> unat w \<le> length cs \<Longrightarrow> flat T (restore_cols w T cs)"
  by (auto simp: restore_cols_eq flat_def list_all_iff restore_col_def Let_def
      dest: in_set_takeD in_set_dropD)

lemma of_nat_less_pred:
  "i < unat (w :: size_t) \<Longrightarrow> ((of_nat i :: size_t) < w - 1) = (i + 1 < unat w)"
proof -
  assume i: "i < unat w"
  then have w0: "w \<noteq> 0" by (auto simp: unat_eq_0)
  have "unat (w - 1) = unat w - 1" using w0 by (simp add: unat_minus_one)
  moreover have "unat (of_nat i :: size_t) = i"
    using i by (metis le_unat_uoi less_imp_le_nat)
  ultimately show ?thesis by (auto simp: word_less_nat_alt)
qed

lemma nth_update_any: "xs[i := x] ! j = (if i = j \<and> i < length xs then x else xs ! j)"
  by (cases "i < length xs") (auto simp: nth_list_update list_update_beyond)

lemma spread_delta_step_height:
  "i < length cs \<Longrightarrow> j < length cs \<Longrightarrow> col_height (spread_delta_step w i cs ! j) = col_height (cs ! j)"
  by (auto simp: spread_delta_step_def Let_def nth_update_any)

lemma spread_delta_step_ldelta:
  "i < length cs \<Longrightarrow> j < length cs \<Longrightarrow>
   ldelta (spread_delta_step w i cs ! j) =
     (if j = i \<and> 0 < i then WATER_SPREAD * (col_height (cs ! i) - col_height (cs ! (i - 1)))
      else ldelta (cs ! j))"
  by (auto simp: spread_delta_step_def Let_def nth_update_any)

lemma spread_delta_step_rdelta:
  "i < unat w \<Longrightarrow> unat w \<le> length cs \<Longrightarrow> j < length cs \<Longrightarrow>
   rdelta (spread_delta_step w i cs ! j) =
     (if j = i \<and> i + 1 < unat w
      then WATER_SPREAD * (col_height (cs ! i) - col_height (cs ! (i + 1)))
      else rdelta (cs ! j))"
  by (auto simp: spread_delta_step_def Let_def nth_update_any of_nat_less_pred)

lemma spread_delta_step_speed:
  "i < unat w \<Longrightarrow> unat w \<le> length cs \<Longrightarrow> j < length cs \<Longrightarrow>
   col_speed (spread_delta_step w i cs ! j) = col_speed (cs ! j) +
     (if 0 < i \<and> j = i - 1 then WATER_SPREAD * (col_height (cs ! i) - col_height (cs ! (i - 1))) else 0) +
     (if i + 1 < unat w \<and> j = i + 1 then WATER_SPREAD * (col_height (cs ! i) - col_height (cs ! (i + 1))) else 0)"
  by (auto simp: spread_delta_step_def Let_def nth_update_any of_nat_less_pred)

lemma delta_pass_inv:
  assumes "unat w \<le> length cs"
  shows "k \<le> unat w \<Longrightarrow>
     length (fold (spread_delta_step w) [0..<k] cs) = length cs \<and>
     (\<forall>j<length cs. col_height (fold (spread_delta_step w) [0..<k] cs ! j) = col_height (cs ! j)) \<and>
     (\<forall>i<k. 0 < i \<longrightarrow> ldelta (fold (spread_delta_step w) [0..<k] cs ! i) =
         WATER_SPREAD * (col_height (cs ! i) - col_height (cs ! (i - 1)))) \<and>
     (\<forall>i<k. i + 1 < unat w \<longrightarrow> rdelta (fold (spread_delta_step w) [0..<k] cs ! i) =
         WATER_SPREAD * (col_height (cs ! i) - col_height (cs ! (i + 1))))"
proof (induction k)
  case 0
  show ?case by simp
next
  case (Suc k)
  let ?c = "fold (spread_delta_step w) [0..<k] cs"
  have k: "k < unat w" "k \<le> unat w" using Suc.prems by simp_all
  note ih = Suc.IH [OF k(2)]
  have len: "length ?c = length cs" using ih by simp
  have kl: "k < length ?c" "unat w \<le> length ?c" "k < length cs" using k assms len by simp_all
  have step: "fold (spread_delta_step w) [0..<Suc k] cs = spread_delta_step w k ?c" by simp
  have 1: "length (spread_delta_step w k ?c) = length cs"
    by (simp add: length_spread_delta_step len)
  have 2: "\<forall>j<length cs. col_height (spread_delta_step w k ?c ! j) = col_height (cs ! j)"
    using ih kl by (simp add: spread_delta_step_height)
  have 3: "\<forall>i<Suc k. 0 < i \<longrightarrow> ldelta (spread_delta_step w k ?c ! i) =
         WATER_SPREAD * (col_height (cs ! i) - col_height (cs ! (i - 1)))"
    using ih kl k by (auto simp: spread_delta_step_ldelta less_Suc_eq)
  have 4: "\<forall>i<Suc k. i + 1 < unat w \<longrightarrow> rdelta (spread_delta_step w k ?c ! i) =
         WATER_SPREAD * (col_height (cs ! i) - col_height (cs ! (i + 1)))"
    using ih kl k by (auto simp: spread_delta_step_rdelta less_Suc_eq)
  show ?case unfolding step using 1 2 3 4 by blast
qed

lemma spread_height_step_height:
  "i < unat w \<Longrightarrow> unat w \<le> length cs \<Longrightarrow> j < length cs \<Longrightarrow>
   col_height (spread_height_step w i cs ! j) = col_height (cs ! j) +
     (if 0 < i \<and> j = i - 1 then ldelta (cs ! i) else 0) +
     (if i + 1 < unat w \<and> j = i + 1 then rdelta (cs ! i) else 0)"
  by (auto simp: spread_height_step_def Let_def nth_update_any of_nat_less_pred)

lemma spread_height_step_other:
  "ldelta (spread_height_step w i cs ! j) = ldelta (cs ! j)"
  "rdelta (spread_height_step w i cs ! j) = rdelta (cs ! j)"
  "col_speed (spread_height_step w i cs ! j) = col_speed (cs ! j)"
  by (auto simp: spread_height_step_def Let_def nth_update_any)

lemma height_pass_inv:
  assumes "unat w \<le> length cs"
  shows "k \<le> unat w \<Longrightarrow>
     length (fold (spread_height_step w) [0..<k] cs) = length cs \<and>
     (\<forall>j. ldelta (fold (spread_height_step w) [0..<k] cs ! j) = ldelta (cs ! j)) \<and>
     (\<forall>j. rdelta (fold (spread_height_step w) [0..<k] cs ! j) = rdelta (cs ! j)) \<and>
     (\<forall>j. col_speed (fold (spread_height_step w) [0..<k] cs ! j) = col_speed (cs ! j)) \<and>
     (\<forall>j<length cs. col_height (fold (spread_height_step w) [0..<k] cs ! j) = col_height (cs ! j) +
         (if j + 1 < k then ldelta (cs ! (j + 1)) else 0) +
         (if 0 < j \<and> j \<le> k \<and> j < unat w then rdelta (cs ! (j - 1)) else 0))"
proof (induction k)
  case 0
  show ?case by simp
next
  case (Suc k)
  let ?c = "fold (spread_height_step w) [0..<k] cs"
  have k: "k < unat w" "k \<le> unat w" using Suc.prems by simp_all
  note ih = Suc.IH [OF k(2)]
  have len: "length ?c = length cs" using ih by simp
  have kl: "unat w \<le> length ?c" using assms len by simp
  have step: "fold (spread_height_step w) [0..<Suc k] cs = spread_height_step w k ?c" by simp
  have 1: "length (spread_height_step w k ?c) = length cs"
    by (simp add: length_spread_height_step len)
  have 2: "\<forall>j. ldelta (spread_height_step w k ?c ! j) = ldelta (cs ! j)"
    using ih by (simp add: spread_height_step_other)
  have 3: "\<forall>j. rdelta (spread_height_step w k ?c ! j) = rdelta (cs ! j)"
    using ih by (simp add: spread_height_step_other)
  have 4: "\<forall>j. col_speed (spread_height_step w k ?c ! j) = col_speed (cs ! j)"
    using ih by (simp add: spread_height_step_other)
  have 5: "\<forall>j<length cs. col_height (spread_height_step w k ?c ! j) = col_height (cs ! j) +
         (if j + 1 < Suc k then ldelta (cs ! (j + 1)) else 0) +
         (if 0 < j \<and> j \<le> Suc k \<and> j < unat w then rdelta (cs ! (j - 1)) else 0)"
  proof (intro allI impI)
    fix j assume j: "j < length cs"
    have "col_height (spread_height_step w k ?c ! j) = col_height (?c ! j) +
       (if 0 < k \<and> j = k - 1 then ldelta (?c ! k) else 0) +
       (if k + 1 < unat w \<and> j = k + 1 then rdelta (?c ! k) else 0)"
      using k kl j len by (simp add: spread_height_step_height)
    also have "col_height (?c ! j) = col_height (cs ! j) +
         (if j + 1 < k then ldelta (cs ! (j + 1)) else 0) +
         (if 0 < j \<and> j \<le> k \<and> j < unat w then rdelta (cs ! (j - 1)) else 0)"
      using ih j by simp
    also have "ldelta (?c ! k) = ldelta (cs ! k)" using ih by simp
    also have "rdelta (?c ! k) = rdelta (cs ! k)" using ih by simp
    finally show "col_height (spread_height_step w k ?c ! j) = col_height (cs ! j) +
         (if j + 1 < Suc k then ldelta (cs ! (j + 1)) else 0) +
         (if 0 < j \<and> j \<le> Suc k \<and> j < unat w then rdelta (cs ! (j - 1)) else 0)"
      using k by (auto simp: less_Suc_eq le_Suc_eq)
  qed
  show ?case unfolding step using 1 2 3 4 5 by blast
qed

lemma spread_pass_height:
  assumes "unat w \<le> length cs" "j < length cs"
  shows "col_height (spread_pass w cs ! j) = col_height (cs ! j) +
     (if j + 1 < unat w then WATER_SPREAD * (col_height (cs ! (j + 1)) - col_height (cs ! j)) else 0) +
     (if 0 < j \<and> j < unat w then WATER_SPREAD * (col_height (cs ! (j - 1)) - col_height (cs ! j)) else 0)"
proof -
  let ?c1 = "fold (spread_delta_step w) [0..<unat w] cs"
  note d = delta_pass_inv [OF assms(1), of "unat w", simplified]
  have len1: "unat w \<le> length ?c1" using d assms by simp
  note h = height_pass_inv [OF len1, of "unat w", simplified]
  have j1: "j < length ?c1" using d assms by simp
  have "col_height (spread_pass w cs ! j) = col_height (?c1 ! j) +
         (if j + 1 < unat w then ldelta (?c1 ! (j + 1)) else 0) +
         (if 0 < j \<and> j < unat w then rdelta (?c1 ! (j - 1)) else 0)"
    unfolding spread_pass_def using h j1 by auto
  also have "col_height (?c1 ! j) = col_height (cs ! j)" using d assms by simp
  also have "(if j + 1 < unat w then ldelta (?c1 ! (j + 1)) else 0) =
     (if j + 1 < unat w then WATER_SPREAD * (col_height (cs ! (j + 1)) - col_height (cs ! j)) else 0)"
    using d by auto
  also have "(if 0 < j \<and> j < unat w then rdelta (?c1 ! (j - 1)) else 0) =
     (if 0 < j \<and> j < unat w then WATER_SPREAD * (col_height (cs ! (j - 1)) - col_height (cs ! j)) else 0)"
    using d by auto
  finally show ?thesis .
qed

lemma telescope:
  fixes a :: "nat \<Rightarrow> real"
  assumes "n \<le> L"
  shows "(\<Sum>j<L. (if j + 1 < n then s * (a (j + 1) - a j) else 0)) +
         (\<Sum>j<L. (if 0 < j \<and> j < n then s * (a (j - 1) - a j) else 0)) = 0"
proof (cases n)
  case 0
  then show ?thesis by simp
next
  case (Suc m)
  have A: "(\<Sum>j<L. (if j + 1 < n then s * (a (j + 1) - a j) else 0)) = (\<Sum>j<m. s * (a (Suc j) - a j))"
  proof -
    have "(\<Sum>j<L. (if j + 1 < n then s * (a (j + 1) - a j) else 0)) =
          (\<Sum>j\<in>{..<L} \<inter> {j. j + 1 < n}. s * (a (j + 1) - a j))"
      by (simp add: sum.If_cases)
    moreover have "{..<L} \<inter> {j. j + 1 < n} = {..<m}" using assms Suc by auto
    ultimately show ?thesis by simp
  qed
  have B: "(\<Sum>j<L. (if 0 < j \<and> j < n then s * (a (j - 1) - a j) else 0)) = (\<Sum>j<m. s * (a j - a (Suc j)))"
  proof -
    have "(\<Sum>j<L. (if 0 < j \<and> j < n then s * (a (j - 1) - a j) else 0)) =
          (\<Sum>j\<in>{..<L} \<inter> {j. 0 < j \<and> j < n}. s * (a (j - 1) - a j))"
      by (simp add: sum.If_cases)
    moreover have "{..<L} \<inter> {j. 0 < j \<and> j < n} = Suc ` {..<m}" using assms Suc
      by (auto simp: image_iff gr0_conv_Suc)
    moreover have "(\<Sum>j\<in>Suc ` {..<m}. s * (a (j - 1) - a j)) = (\<Sum>j<m. s * (a j - a (Suc j)))"
      by (simp add: sum.reindex)
    ultimately show ?thesis by simp
  qed
  show ?thesis unfolding A B by (simp add: sum.distrib [symmetric] algebra_simps)
qed

lemma sum_list_heights:
  "sum_list (map col_height cs) = (\<Sum>j<length cs. col_height (cs ! j))"
  by (simp add: sum_list_sum_nth atLeast0LessThan)

lemma spread_pass_sum:
  assumes "unat w \<le> length cs"
  shows "sum_list (map col_height (spread_pass w cs)) = sum_list (map col_height cs)"
proof -
  let ?h = "\<lambda>j. col_height (cs ! j)"
  have "sum_list (map col_height (spread_pass w cs)) =
        (\<Sum>j<length cs. col_height (spread_pass w cs ! j))"
    by (simp add: sum_list_heights length_spread_pass)
  also have "\<dots> = (\<Sum>j<length cs. ?h j +
       (if j + 1 < unat w then WATER_SPREAD * (?h (j + 1) - ?h j) else 0) +
       (if 0 < j \<and> j < unat w then WATER_SPREAD * (?h (j - 1) - ?h j) else 0))"
    using assms by (intro sum.cong refl) (simp add: spread_pass_height)
  also have "\<dots> = (\<Sum>j<length cs. ?h j) +
       ((\<Sum>j<length cs. (if j + 1 < unat w then WATER_SPREAD * (?h (j + 1) - ?h j) else 0)) +
        (\<Sum>j<length cs. (if 0 < j \<and> j < unat w then WATER_SPREAD * (?h (j - 1) - ?h j) else 0)))"
    by (simp add: sum.distrib)
  also have "\<dots> = (\<Sum>j<length cs. ?h j)"
    using telescope [OF assms, of WATER_SPREAD ?h] by simp
  finally show ?thesis by (simp add: sum_list_heights)
qed

lemma flat_spread_delta_step:
  "flat T cs \<Longrightarrow> i < unat w \<Longrightarrow> unat w \<le> length cs \<Longrightarrow> flat T (spread_delta_step w i cs)"
  unfolding flat_nth
  by (simp add: length_spread_delta_step spread_delta_step_height spread_delta_step_speed)

lemma flat_delta_pass:
  "flat T cs \<Longrightarrow> unat w \<le> length cs \<Longrightarrow> \<forall>i\<in>set is. i < unat w \<Longrightarrow>
   flat T (fold (spread_delta_step w) is cs)"
  by (induction "is" arbitrary: cs) (auto simp: flat_spread_delta_step length_spread_delta_step)

lemma flat_spread_pass:
  assumes "flat T cs" "unat w \<le> length cs"
  shows "flat T (spread_pass w cs)"
proof -
  let ?c1 = "fold (spread_delta_step w) [0..<unat w] cs"
  have f1: "flat T ?c1" using assms by (simp add: flat_delta_pass)
  have len1: "length ?c1 = length cs"
    by (simp add: length_fold_steps length_spread_delta_step)
  then have le1: "unat w \<le> length ?c1" using assms by simp
  note h = height_pass_inv [OF le1, of "unat w", simplified]
  have sp: "\<forall>j<length cs. col_speed (spread_pass w cs ! j) = 0"
    unfolding spread_pass_def using h f1 len1 by (simp add: flat_nth)
  have ht: "\<forall>j<length cs. col_height (spread_pass w cs ! j) = T"
    using assms by (auto simp: spread_pass_height flat_nth)
  show ?thesis using sp ht by (simp add: flat_nth length_spread_pass)
qed

lemma flat_spread_passes:
  "flat T cs \<Longrightarrow> unat w \<le> length cs \<Longrightarrow> flat T (fold (\<lambda>j. spread_pass w) js cs)"
  by (induction js arbitrary: cs) (auto simp: flat_spread_pass length_spread_pass)

lemma water_update_resized:
  assumes "ts_updated t \<noteq> 0" "unat (ts_width t) < 2 ^ 60"
  shows "\<exists>cs. water_update t (Some c) (Some w) =
            Inr (0, Some (w\<lparr>cols := cs, target_height := 8,
                             island_y := (ts_height t * 3 div 4) - 1\<rparr>))
          \<and> length cs = unat (ts_width t) \<and> flat 8 cs"
proof -
  obtain tmp where tmp: "realloc_cols (cols w) (Some c) (sizeof_water_column_t * ts_width t) = Some tmp"
    by (simp add: realloc_cols_def Let_def)
  have len: "length tmp = unat (ts_width t)" using length_realloc_cols [OF assms(2) tmp] .
  let ?r = "reset_cols (ts_width t) 8 tmp"
  let ?cs = "fold (\<lambda>j. spread_pass (ts_width t)) [0..<8] (restore_cols (ts_width t) 8 ?r)"
  have fr: "flat 8 ?r" using len by (simp add: flat_reset_cols)
  have lr: "length ?r = unat (ts_width t)" using len by (simp add: length_reset_cols)
  have f2: "flat 8 (restore_cols (ts_width t) 8 ?r)" using fr lr by (simp add: flat_restore_cols)
  have "flat 8 ?cs" using f2 lr by (simp add: flat_spread_passes length_restore_cols)
  moreover have "length ?cs = unat (ts_width t)"
    using lr by (simp add: length_spread_passes length_restore_cols)
  moreover have "water_update t (Some c) (Some w) =
            Inr (0, Some (w\<lparr>cols := ?cs, target_height := 8,
                             island_y := (ts_height t * 3 div 4) - 1\<rparr>))"
    using assms(1) tmp len lr by (simp add: water_physics_def)
  ultimately show ?thesis by blast
qed

lemma water_update_steady:
  assumes "ts_updated t = 0" "length (cols w) = unat (ts_width t)"
  shows "\<exists>cs. water_update t a (Some w) = Inr (0, Some (w\<lparr>cols := cs\<rparr>))
          \<and> length cs = unat (ts_width t)"
proof -
  let ?cs = "fold (\<lambda>j. spread_pass (ts_width t)) [0..<8]
               (restore_cols (ts_width t) (target_height w) (cols w))"
  have "water_update t a (Some w) = Inr (0, Some (w\<lparr>cols := ?cs\<rparr>))"
    using assms by (simp add: water_physics_def)
  moreover have "length ?cs = unat (ts_width t)"
    using assms by (simp add: length_spread_passes length_restore_cols)
  ultimately show ?thesis by blast
qed

section \<open>Claims on the terminal size and the water field\<close>

text \<open>
  Claim C5, as amended. When the terminal query fails, \<^verbatim>\<open>termsize_update\<close> returns -2 and
  leaves the stored width, the stored height and the \<^verbatim>\<open>updated\<close> flag all as they were.
  The flag is not cleared: it is false after the refresh only if it was false before.
\<close>

theorem termsize_update_query_failure:
  "termsize_update None (Some t) = (-2, Some t)"
  by simp

text \<open>
  The claim as stated asks for a false flag after a failed query. A 40 by 20 terminal
  is seen for the first time, which sets the flag; the next query fails and the flag is
  still set.
\<close>

theorem termsize_update_flag_counterexample:
  "termsize_update (Some \<lparr>ws_row = 20, ws_col = 40\<rparr>)
       (Some \<lparr>ts_width = 0, ts_height = 0, ts_updated = 0\<rparr>) =
     (0, Some \<lparr>ts_width = 40, ts_height = 20, ts_updated = 1\<rparr>) \<and>
   termsize_update None (Some \<lparr>ts_width = 40, ts_height = 20, ts_updated = 1\<rparr>) =
     (-2, Some \<lparr>ts_width = 40, ts_height = 20, ts_updated = 1\<rparr>) \<and>
   ts_updated \<lparr>ts_width = 40, ts_height = 20, ts_updated = 1\<rparr> \<noteq> 0"
  by simp

text \<open>
  Claim C1, as amended. \<^verbatim>\<open>water_update\<close> returns 0 with a column array as long as the
  terminal is wide in two cases: on a frame with the \<^verbatim>\<open>updated\<close> flag set when
  \<^verbatim>\<open>realloc\<close> succeeds (the width fits the byte count, which every width read from the
  16-bit \<^verbatim>\<open>ws_col\<close> does), and on a frame with the flag clear when the array was that
  long before the call. On a frame with the flag set when \<^verbatim>\<open>realloc\<close> fails, it
  returns -2 and the water field, its array included, is as before the call.
\<close>

theorem water_update_cols_length:
  "((ts_updated t \<noteq> 0 \<and> a \<noteq> None \<and> unat (ts_width t) < 2 ^ 60) \<or>
    (ts_updated t = 0 \<and> length (cols w) = unat (ts_width t)) \<longrightarrow>
    (\<exists>w'. water_update t a (Some w) = Inr (0, Some w') \<and>
          length (cols w') = unat (ts_width t))) \<and>
   (ts_updated t \<noteq> 0 \<longrightarrow> water_update t None (Some w) = Inr (-2, Some w))"
proof (intro conjI impI)
  assume "(ts_updated t \<noteq> 0 \<and> a \<noteq> None \<and> unat (ts_width t) < 2 ^ 60) \<or>
          (ts_updated t = 0 \<and> length (cols w) = unat (ts_width t))"
  then show "\<exists>w'. water_update t a (Some w) = Inr (0, Some w') \<and>
                  length (cols w') = unat (ts_width t)"
  proof (elim disjE conjE)
    assume "ts_updated t \<noteq> 0" "a \<noteq> None" "unat (ts_width t) < 2 ^ 60"
    then obtain c where "a = Some c" by auto
    with water_update_resized [of t c w] \<open>ts_updated t \<noteq> 0\<close> \<open>unat (ts_width t) < 2 ^ 60\<close>
    show ?thesis by auto
  next
    assume "ts_updated t = 0" "length (cols w) = unat (ts_width t)"
    with water_update_steady [of t w a] show ?thesis by auto
  qed
next
  assume "ts_updated t \<noteq> 0"
  then show "water_update t None (Some w) = Inr (-2, Some w)"
    by (simp add: realloc_cols_def)
qed

text \<open>
  All three cases at work: a resize from two to three columns, a frame with no resize,
  and a resize for which \<^verbatim>\<open>realloc\<close> fails.
\<close>

theorem water_update_cols_length_witness:
  "(\<exists>w'. water_update \<lparr>ts_width = 3, ts_height = 24, ts_updated = 1\<rparr> (Some col0)
            (Some \<lparr>cols = [col0, col0], target_height = 8, island_y = 17\<rparr>) = Inr (0, Some w') \<and>
          length (cols w') = 3) \<and>
   (\<exists>w'. water_update \<lparr>ts_width = 2, ts_height = 24, ts_updated = 0\<rparr> None
            (Some \<lparr>cols = [col0, col0], target_height = 8, island_y = 17\<rparr>) = Inr (0, Some w') \<and>
          length (cols w') = 2) \<and>
   water_update \<lparr>ts_width = 3, ts_height = 24, ts_updated = 1\<rparr> None
            (Some \<lparr>cols = [col0, col0], target_height = 8, island_y = 17\<rparr>) =
     Inr (-2, Some \<lparr>cols = [col0, col0], target_height = 8, island_y = 17\<rparr>)"
proof -
  let ?t3 = "\<lparr>ts_width = 3, ts_height = 24, ts_updated = 1\<rparr>"
  let ?t2 = "\<lparr>ts_width = 2, ts_height = 24, ts_updated = 0\<rparr>"
  let ?w = "\<lparr>cols = [col0, col0], target_height = 8, island_y = 17\<rparr>"
  have 1: "(ts_updated ?t3 \<noteq> 0 \<and> Some col0 \<noteq> None \<and> unat (ts_width ?t3) < 2 ^ 60) \<or>
           (ts_updated ?t3 = 0 \<and> length (cols ?w) = unat (ts_width ?t3))"
    by simp
  have 2: "(ts_updated ?t2 \<noteq> 0 \<and> None \<noteq> None \<and> unat (ts_width ?t2) < 2 ^ 60) \<or>
           (ts_updated ?t2 = 0 \<and> length (cols ?w) = unat (ts_width ?t2))"
    by simp
  have 3: "ts_updated ?t3 \<noteq> 0" by simp
  have a: "\<exists>w'. water_update ?t3 (Some col0) (Some ?w) = Inr (0, Some w') \<and>
                length (cols w') = unat (ts_width ?t3)"
    using water_update_cols_length [of ?t3 "Some col0" ?w] 1 by blast
  have b: "\<exists>w'. water_update ?t2 None (Some ?w) = Inr (0, Some w') \<and>
                length (cols w') = unat (ts_width ?t2)"
    using water_update_cols_length [of ?t2 None ?w] 2 by blast
  have c: "water_update ?t3 None (Some ?w) = Inr (-2, Some ?w)"
    using water_update_cols_length [of ?t3 None ?w] 3 by blast
  have u3: "unat (ts_width ?t3) = 3" and u2: "unat (ts_width ?t2) = 2" by simp_all
  show ?thesis using a b c unfolding u3 u2 by blast
qed

text \<open>
  The claim as stated covers every frame. On a frame where the terminal grew from two
  to three columns and \<^verbatim>\<open>realloc\<close> returns the null pointer, \<^verbatim>\<open>water_update\<close> returns -2
  and the array still has two columns.
\<close>

theorem water_update_alloc_failure_counterexample:
  "water_update \<lparr>ts_width = 3, ts_height = 24, ts_updated = 1\<rparr> None
      (Some \<lparr>cols = [col0, col0], target_height = 8, island_y = 17\<rparr>) =
     Inr (-2, Some \<lparr>cols = [col0, col0], target_height = 8, island_y = 17\<rparr>) \<and>
   length (cols \<lparr>cols = [col0, col0], target_height = 8, island_y = 17\<rparr>) \<noteq>
     unat (ts_width \<lparr>ts_width = 3, ts_height = 24, ts_updated = 1\<rparr>)"
  by (simp add: realloc_cols_def)

text \<open>
  Claim C2. One lateral spread pass leaves the sum of the column heights as it was. The
  heights are exact reals here, so the sum is equal, not only close: this is the exact
  arithmetic that the claim's tolerance is measured against.
\<close>

theorem spread_pass_conserves_height:
  "unat w \<le> length cs \<Longrightarrow>
   sum_list (map col_height (spread_pass w cs)) = sum_list (map col_height cs)"
  by (rule spread_pass_sum)

theorem spread_pass_conserves_height_witness:
  "unat (3 :: size_t) \<le> length [column_at 1 0, column_at 2 0, column_at 4 0] \<and>
   sum_list (map col_height (spread_pass 3 [column_at 1 0, column_at 2 0, column_at 4 0])) = 7"
proof -
  have h: "unat (3 :: size_t) \<le> length [column_at 1 0, column_at 2 0, column_at 4 0]"
    by simp
  show ?thesis
    using h spread_pass_conserves_height [OF h] by (simp add: column_at_def)
qed



text \<open>
  Claim C10, as amended. On a frame with the \<^verbatim>\<open>updated\<close> flag set, when \<^verbatim>\<open>realloc\<close>
  provides the new array, \<^verbatim>\<open>water_update\<close> leaves \<^verbatim>\<open>target_height\<close> at the constant 8
  and every column at height 8. The target height the call started from plays no part:
  with any other value \<open>T\<close> in its place the result is the same, so what drip impacts
  had added to it is gone. When \<^verbatim>\<open>realloc\<close> fails on such a frame, \<^verbatim>\<open>water_update\<close>
  returns -2 before the reset, and the water field keeps its target height and its
  columns.
\<close>

theorem water_update_resize_target:
  assumes "ts_updated t \<noteq> 0" "unat (ts_width t) < 2 ^ 60"
  shows "(\<exists>w'. water_update t (Some c) (Some w) = Inr (0, Some w') \<and>
               target_height w' = 8 \<and>
               list_all (\<lambda>c. col_height c = 8) (cols w') \<and>
               water_update t (Some c) (Some (w\<lparr>target_height := T\<rparr>)) = Inr (0, Some w')) \<and>
         water_update t None (Some w) = Inr (-2, Some w)"
proof
  obtain cs where cs: "water_update t (Some c) (Some w) =
            Inr (0, Some (w\<lparr>cols := cs, target_height := 8,
                             island_y := (ts_height t * 3 div 4) - 1\<rparr>))" "flat 8 cs"
    using water_update_resized [OF assms, of c w] by blast
  have "water_update t (Some c) (Some (w\<lparr>target_height := T\<rparr>)) = water_update t (Some c) (Some w)"
    using assms(1) by (simp add: water_physics_def realloc_cols_def Let_def)
  with cs show "\<exists>w'. water_update t (Some c) (Some w) = Inr (0, Some w') \<and>
               target_height w' = 8 \<and>
               list_all (\<lambda>c. col_height c = 8) (cols w') \<and>
               water_update t (Some c) (Some (w\<lparr>target_height := T\<rparr>)) = Inr (0, Some w')"
    by (auto simp: flat_def list_all_iff)
next
  show "water_update t None (Some w) = Inr (-2, Some w)"
    using assms(1) by (simp add: realloc_cols_def)
qed

text \<open>
  A field whose target height drip impacts have raised to 12, on a frame where the
  terminal grew from two to three columns: with the new array the target height is 8
  again, without it the call returns -2 and the field is as before.
\<close>

theorem water_update_resize_target_witness:
  "ts_updated \<lparr>ts_width = 3, ts_height = 24, ts_updated = 1\<rparr> \<noteq> 0 \<and>
   unat (ts_width \<lparr>ts_width = 3, ts_height = 24, ts_updated = 1\<rparr>) < 2 ^ 60 \<and>
   (\<exists>w'. water_update \<lparr>ts_width = 3, ts_height = 24, ts_updated = 1\<rparr> (Some col0)
            (Some \<lparr>cols = [column_at 12 0, column_at 12 0], target_height = 12, island_y = 17\<rparr>)
            = Inr (0, Some w') \<and>
          target_height w' = 8 \<and>
          list_all (\<lambda>c. col_height c = 8) (cols w')) \<and>
   water_update \<lparr>ts_width = 3, ts_height = 24, ts_updated = 1\<rparr> None
       (Some \<lparr>cols = [column_at 12 0, column_at 12 0], target_height = 12, island_y = 17\<rparr>) =
     Inr (-2, Some \<lparr>cols = [column_at 12 0, column_at 12 0], target_height = 12, island_y = 17\<rparr>)"
proof -
  have 1: "ts_updated \<lparr>ts_width = 3, ts_height = 24, ts_updated = 1\<rparr> \<noteq> 0" by simp
  have 2: "unat (ts_width \<lparr>ts_width = 3, ts_height = 24, ts_updated = 1\<rparr>) < 2 ^ 60" by simp
  show ?thesis
    using 1 2 water_update_resize_target [OF 1 2, of col0
        "\<lparr>cols = [column_at 12 0, column_at 12 0], target_height = 12, island_y = 17\<rparr>" 12]
    by blast
qed

text \<open>
  The claim as stated has the target height reset to 8 on every frame with the flag
  set. On the frame of the example where \<^verbatim>\<open>realloc\<close> returns the null pointer,
  \<^verbatim>\<open>water_update\<close> returns -2, the target height is still 12 and the columns still
  stand at 12.
\<close>

theorem water_update_resize_target_counterexample:
  "ts_updated \<lparr>ts_width = 3, ts_height = 24, ts_updated = 1\<rparr> \<noteq> 0 \<and>
   water_update \<lparr>ts_width = 3, ts_height = 24, ts_updated = 1\<rparr> None
       (Some \<lparr>cols = [column_at 12 0, column_at 12 0], target_height = 12, island_y = 17\<rparr>) =
     Inr (-2, Some \<lparr>cols = [column_at 12 0, column_at 12 0], target_height = 12, island_y = 17\<rparr>) \<and>
   target_height \<lparr>cols = [column_at 12 0, column_at 12 0], target_height = 12, island_y = 17\<rparr>
     \<noteq> 8 \<and>
   col_height (column_at 12 0) \<noteq> 8"
  by (simp add: realloc_cols_def column_at_def)

subsection \<open>The example fields are left by a resize\<close>

lemma replicate_update_same: "(replicate n x)[i := x] = replicate n x"
  by (induction n arbitrary: i) (auto split: nat.splits)

lemmas water_eval = col0_def realloc_cols_def sizeof_water_column_t_def
  water_physics_def reset_cols_def reset_col_def restore_cols_def restore_col_def
  spread_pass_def spread_delta_step_def spread_height_step_def
  WATER_TENSION_def WATER_DAMPENING_def WATER_SPREAD_def Let_def upt_rec
  replicate_update_same

lemma w4x3_reached:
  "water_update (t4x3\<lparr>ts_updated := 1\<rparr>) (Some col0)
     (Some \<lparr>cols = [], target_height = 0, island_y = 0\<rparr>) = Inr (0, Some w4x3)"
proof -
  have four: "[col0, col0, col0, col0] = replicate 4 col0" by (simp add: numeral_eq_Suc)
  show ?thesis unfolding w4x3_def four by (simp add: t4x3_def water_eval)
qed

lemma w8_reached:
  "water_update (t8x4\<lparr>ts_updated := 1\<rparr>) (Some col0)
     (Some \<lparr>cols = [], target_height = 0, island_y = 0\<rparr>) = Inr (0, Some w8)"
  by (simp add: t8x4_def w8_def water_eval)

section \<open>The restoring force alone\<close>

lemma energy_step:
  fixes h v T :: real
  shows "(1 / 40) * (h + (v + ((1 / 40) * (T - h) - v * (1 / 40))) - T)\<^sup>2 +
         (39 / 40) * (v + ((1 / 40) * (T - h) - v * (1 / 40)))\<^sup>2 =
         (39 / 40) * ((1 / 40) * (h - T)\<^sup>2 + (39 / 40) * v\<^sup>2)"
  by (simp add: power2_eq_square field_simps)

lemma energy_restore_col:
  "column_energy T (restore_col T c) = (1 - WATER_DAMPENING) * column_energy T c"
  using energy_step [of "col_height c" "col_speed c" T]
  by (simp add: column_energy_def restore_col_def Let_def WATER_TENSION_def WATER_DAMPENING_def)

lemma energy_restore_col_iter:
  "column_energy T ((restore_col T ^^ n) c) = (1 - WATER_DAMPENING) ^ n * column_energy T c"
  by (induction n) (simp_all add: energy_restore_col)

lemma restore_cols_nth:
  "i < unat w \<Longrightarrow> unat w \<le> length cs \<Longrightarrow> restore_cols w T cs ! i = restore_col T (cs ! i)"
  by (simp add: restore_cols_eq nth_append)

lemma restore_cols_iter_nth:
  "i < unat w \<Longrightarrow> unat w \<le> length cs \<Longrightarrow>
   (restore_cols w T ^^ n) cs ! i = (restore_col T ^^ n) (cs ! i) \<and>
   length ((restore_cols w T ^^ n) cs) = length cs"
  by (induction n) (simp_all add: restore_cols_nth length_restore_cols)

lemma height_le_energy:
  "(col_height c - T)\<^sup>2 \<le> 40 * column_energy T c"
proof -
  have "0 \<le> (col_speed c)\<^sup>2" by simp
  then show ?thesis
    by (simp add: column_energy_def WATER_TENSION_def WATER_DAMPENING_def)
qed

lemma restore_iter_bound:
  "(col_height ((restore_col T ^^ n) c) - T)\<^sup>2 \<le>
     (1 - WATER_DAMPENING) ^ n * ((col_height c - T)\<^sup>2 + 39 * (col_speed c)\<^sup>2)"
proof -
  have "(col_height ((restore_col T ^^ n) c) - T)\<^sup>2 \<le> 40 * column_energy T ((restore_col T ^^ n) c)"
    by (rule height_le_energy)
  also have "\<dots> = (1 - WATER_DAMPENING) ^ n * (40 * column_energy T c)"
    by (simp add: energy_restore_col_iter)
  also have "40 * column_energy T c = (col_height c - T)\<^sup>2 + 39 * (col_speed c)\<^sup>2"
    by (simp add: column_energy_def WATER_TENSION_def WATER_DAMPENING_def)
  finally show ?thesis .
qed

lemma restore_iter_tendsto:
  "(\<lambda>n. col_height ((restore_col T ^^ n) c)) \<longlonglongrightarrow> T"
proof -
  let ?e = "\<lambda>n. col_height ((restore_col T ^^ n) c) - T"
  let ?C = "(col_height c - T)\<^sup>2 + 39 * (col_speed c)\<^sup>2"
  have "(\<lambda>n. (1 - WATER_DAMPENING) ^ n * ?C) \<longlonglongrightarrow> 0 * ?C"
    by (intro tendsto_mult LIMSEQ_realpow_zero tendsto_const)
       (simp_all add: WATER_DAMPENING_def)
  then have up: "(\<lambda>n. (1 - WATER_DAMPENING) ^ n * ?C) \<longlonglongrightarrow> 0" by simp
  have sq: "(\<lambda>n. (?e n)\<^sup>2) \<longlonglongrightarrow> 0"
    by (rule tendsto_sandwich [OF _ _ tendsto_const up])
       (simp_all add: restore_iter_bound)
  have "(\<lambda>n. sqrt ((?e n)\<^sup>2)) \<longlonglongrightarrow> sqrt 0"
    by (intro tendsto_real_sqrt sq)
  then have "(\<lambda>n. \<bar>?e n\<bar>) \<longlonglongrightarrow> 0" by simp
  then have "?e \<longlonglongrightarrow> 0" by (simp add: tendsto_rabs_zero_iff)
  then have "(\<lambda>n. ?e n + T) \<longlonglongrightarrow> 0 + T" by (intro tendsto_add tendsto_const)
  then show ?thesis by simp
qed

text \<open>
  Claim C9, as amended. With the target height held at \<open>T\<close>, every pass of the
  restoring force multiplies the energy of a column by 0.975. After \<open>n\<close> passes the
  squared distance of its height from \<open>T\<close> is at most 0.975 to the power \<open>n\<close> times a
  constant of the starting state, and the height converges to \<open>T\<close>. The column is a
  damped oscillator: it swings through the target, so the distance itself does not
  shrink from every frame to the next.
\<close>

theorem restore_cols_damped:
  assumes "i < unat w" "unat w \<le> length cs"
  shows "column_energy T ((restore_cols w T ^^ n) cs ! i) =
           (1 - WATER_DAMPENING) ^ n * column_energy T (cs ! i) \<and>
         (col_height ((restore_cols w T ^^ n) cs ! i) - T)\<^sup>2 \<le>
           (1 - WATER_DAMPENING) ^ n * ((col_height (cs ! i) - T)\<^sup>2 + 39 * (col_speed (cs ! i))\<^sup>2) \<and>
         (\<lambda>n. col_height ((restore_cols w T ^^ n) cs ! i)) \<longlonglongrightarrow> T"
  using assms
  by (simp add: restore_cols_iter_nth energy_restore_col_iter restore_iter_bound restore_iter_tendsto)

theorem restore_cols_damped_witness:
  "0 < unat (1 :: size_t) \<and> unat (1 :: size_t) \<le> length [column_at 9 0] \<and>
   (col_height ((restore_cols 1 8 ^^ 11) [column_at 9 0] ! 0) - 8)\<^sup>2 \<le> (39 / 40) ^ 11 \<and>
   (\<lambda>n. col_height ((restore_cols 1 8 ^^ n) [column_at 9 0] ! 0)) \<longlonglongrightarrow> 8"
proof -
  have 1: "0 < unat (1 :: size_t)" by simp
  have 2: "unat (1 :: size_t) \<le> length [column_at 9 0]" by simp
  have 3: "(1 - WATER_DAMPENING) ^ 11 *
      ((col_height ([column_at 9 0] ! 0) - 8)\<^sup>2 + 39 * (col_speed ([column_at 9 0] ! 0))\<^sup>2) =
      (39 / 40) ^ 11"
    by (simp add: WATER_DAMPENING_def column_at_def)
  show ?thesis
    using 1 2 restore_cols_damped [OF 1 2, of 8 11] unfolding 3 by blast
qed

text \<open>
  The claim as stated has the distance from the target shrink on every frame. A
  single column released at rest one unit above the target 8 comes within 0.015 of it
  after 10 passes and is 0.152 below it after 11.
\<close>

theorem restore_not_monotone_counterexample:
  "\<bar>col_height ((restore_cols 1 8 ^^ 10) [column_at 9 0] ! 0) - 8\<bar> <
   \<bar>col_height ((restore_cols 1 8 ^^ 11) [column_at 9 0] ! 0) - 8\<bar>"
  by (simp add: restore_cols_def restore_col_def column_at_def numeral_eq_Suc
      WATER_TENSION_def WATER_DAMPENING_def)

section \<open>Properties of the drips\<close>

lemma drips_loop_snoc:
  "drips_loop t (xs @ [i]) s =
     (case drips_loop t xs s of Inl e \<Rightarrow> Inl e | Inr s' \<Rightarrow> drip_step t i s')"
  by (induction xs arbitrary: s) (auto split: sum.splits)

lemma drip_step_inactive:
  "drip_active (ds ! i) = 0 \<Longrightarrow> drip_step t i (ds, w) = Inr (ds, w)"
  by (simp add: drip_step_def)

lemma drip_step_active:
  assumes "drip_step t i (ds, w) = Inr (ds', w')" "i < length ds" "drip_active (ds ! i) \<noteq> 0"
  shows "unat (drip_x (ds ! 0)) < length (cols w)"
    and "length ds' = length ds"
    and "\<forall>j. j \<noteq> i \<longrightarrow> ds' ! j = ds ! j"
    and "drip_x (ds' ! i) = drip_x (ds ! i)"
    and "drip_speed (ds' ! i) = drip_speed (ds ! i) - GRAVITY"
    and "drip_active (ds' ! i) = 0 \<longleftrightarrow>
           size_t_to_float (drip_y (ds' ! i)) \<le> col_height (cols w ! unat (drip_x (ds ! 0)))"
    and "drip_active (ds' ! i) \<noteq> 0 \<Longrightarrow> w' = w"
    and "drip_active (ds' ! i) = 0 \<Longrightarrow>
           w' = w\<lparr>cols := (cols w)[unat (drip_x (ds ! 0)) := (cols w ! unat (drip_x (ds ! 0)))
                     \<lparr>col_speed := col_speed (cols w ! unat (drip_x (ds ! 0))) + drip_speed (ds' ! i)\<rparr>],
                  target_height := (if target_height w < target_cap t
                                    then target_height w + target_raise t else target_height w)\<rparr>"
proof -
  have x0: "drip_x (ds[i := d] ! 0) = drip_x (ds ! 0)" if "drip_x d = drip_x (ds ! i)" for d
    using that assms(2) by (cases "i = 0") simp_all
  note defs = drip_step_def Let_def target_cap_def target_raise_def
  show "unat (drip_x (ds ! 0)) < length (cols w)"
    using assms by (auto simp: defs x0 split: sum.splits if_splits)
  show "length ds' = length ds"
    using assms by (auto simp: defs x0 split: sum.splits if_splits)
  show "\<forall>j. j \<noteq> i \<longrightarrow> ds' ! j = ds ! j"
    using assms by (auto simp: defs x0 split: sum.splits if_splits)
  show "drip_x (ds' ! i) = drip_x (ds ! i)"
    using assms by (auto simp: defs x0 split: sum.splits if_splits)
  show "drip_speed (ds' ! i) = drip_speed (ds ! i) - GRAVITY"
    using assms by (auto simp: defs x0 split: sum.splits if_splits)
  show "drip_active (ds' ! i) = 0 \<longleftrightarrow>
           size_t_to_float (drip_y (ds' ! i)) \<le> col_height (cols w ! unat (drip_x (ds ! 0)))"
    using assms by (auto simp: defs x0 split: sum.splits if_splits)
  show "drip_active (ds' ! i) \<noteq> 0 \<Longrightarrow> w' = w"
    using assms by (auto simp: defs x0 split: sum.splits if_splits)
  show "drip_active (ds' ! i) = 0 \<Longrightarrow>
           w' = w\<lparr>cols := (cols w)[unat (drip_x (ds ! 0)) := (cols w ! unat (drip_x (ds ! 0)))
                     \<lparr>col_speed := col_speed (cols w ! unat (drip_x (ds ! 0))) + drip_speed (ds' ! i)\<rparr>],
                  target_height := (if target_height w < target_cap t
                                    then target_height w + target_raise t else target_height w)\<rparr>"
    using assms by (auto simp: defs x0 split: sum.splits if_splits)
qed

lemma hits_cong: "\<forall>j<k. a ! j = b ! j \<Longrightarrow> hits ds a k = hits ds b k"
  unfolding hits_def by (rule filter_cong) auto

lemma hits_speed_cong:
  "\<forall>j<k. a ! j = b ! j \<Longrightarrow>
   map (\<lambda>j. drip_speed (a ! j)) (hits ds a k) = map (\<lambda>j. drip_speed (b ! j)) (hits ds b k)"
  by (simp add: hits_cong [of k a b]) (auto simp: hits_def)

lemma hits_Suc:
  "hits ds a (Suc k) =
     hits ds a k @ (if drip_active (ds ! k) \<noteq> 0 \<and> drip_active (a ! k) = 0 then [k] else [])"
  by (simp add: hits_def)

lemma drips_loop_inv:
  assumes "k \<le> length ds"
  shows "drips_loop t [0..<k] (ds, w) = Inr (dsk, wk) \<Longrightarrow>
     length dsk = length ds \<and> (\<forall>j. k \<le> j \<longrightarrow> dsk ! j = ds ! j) \<and>
     drip_x (dsk ! 0) = drip_x (ds ! 0) \<and>
     (\<forall>j<k. drip_active (ds ! j) \<noteq> 0 \<longrightarrow>
        (drip_active (dsk ! j) = 0 \<longleftrightarrow>
         size_t_to_float (drip_y (dsk ! j)) \<le> col_height (cols w ! unat (drip_x (ds ! 0))))) \<and>
     (hits ds dsk k \<noteq> [] \<longrightarrow> unat (drip_x (ds ! 0)) < length (cols w)) \<and>
     cols wk = (cols w)[unat (drip_x (ds ! 0)) := (cols w ! unat (drip_x (ds ! 0)))
        \<lparr>col_speed := col_speed (cols w ! unat (drip_x (ds ! 0))) +
            sum_list (map (\<lambda>j. drip_speed (dsk ! j)) (hits ds dsk k))\<rparr>] \<and>
     (\<exists>m\<le>length (hits ds dsk k).
        target_height wk = target_height w + real m * target_raise t \<and>
        (m < length (hits ds dsk k) \<longrightarrow> target_cap t \<le> target_height wk) \<and>
        (0 < m \<longrightarrow> target_height wk < target_cap t + target_raise t))"
  using assms
proof (induction k arbitrary: dsk wk)
  case 0
  then show ?case by (auto simp: hits_def list_update_same_conv
        intro!: nth_equalityI simp: nth_list_update)
next
  case (Suc k)
  let ?x0 = "unat (drip_x (ds ! 0))"
  let ?c = "cols w ! ?x0"
  have k: "k \<le> length ds" "k < length ds" using Suc.prems by simp_all
  obtain dsm wm where mid: "drips_loop t [0..<k] (ds, w) = Inr (dsm, wm)"
    and step: "drip_step t k (dsm, wm) = Inr (dsk, wk)"
    using Suc.prems(1) by (auto simp: drips_loop_snoc split: sum.splits)
  note ih = Suc.IH [OF mid k(1)]
  have len: "length dsm = length ds" and same: "dsm ! k = ds ! k"
    and x0m: "drip_x (dsm ! 0) = drip_x (ds ! 0)" using ih by auto
  have colsm: "cols wm = (cols w)[?x0 := ?c\<lparr>col_speed := col_speed ?c +
            sum_list (map (\<lambda>j. drip_speed (dsm ! j)) (hits ds dsm k))\<rparr>]" using ih by blast
  obtain m where m: "m \<le> length (hits ds dsm k)"
      "target_height wm = target_height w + real m * target_raise t"
      "m < length (hits ds dsm k) \<longrightarrow> target_cap t \<le> target_height wm"
      "0 < m \<longrightarrow> target_height wm < target_cap t + target_raise t" using ih by blast
  show ?case
  proof (cases "drip_active (ds ! k) = 0")
    case True
    then have "drip_step t k (dsm, wm) = Inr (dsm, wm)" using same by (simp add: drip_step_inactive)
    then have eq: "dsk = dsm" "wk = wm" using step by simp_all
    have h: "hits ds dsm (Suc k) = hits ds dsm k" using True by (simp add: hits_Suc)
    show ?thesis unfolding eq h using ih True by (auto simp: less_Suc_eq)
  next
    case False
    then have act: "drip_active (dsm ! k) \<noteq> 0" using same by simp
    have km: "k < length dsm" using k len by simp
    note st = drip_step_active [OF step km act]
    have x0lt: "?x0 < length (cols w)" using st(1) x0m colsm by simp
    have hm: "col_height (cols wm ! ?x0) = col_height ?c" using colsm x0lt by simp
    have old: "\<forall>j<k. dsk ! j = dsm ! j" using st(3) by simp
    have hk: "hits ds dsk k = hits ds dsm k" using old by (rule hits_cong)
    have sk: "map (\<lambda>j. drip_speed (dsk ! j)) (hits ds dsk k) =
              map (\<lambda>j. drip_speed (dsm ! j)) (hits ds dsm k)" using old by (rule hits_speed_cong)
    have sumeq: "sum_list (map (\<lambda>j. drip_speed (dsk ! j)) (hits ds dsm k)) =
                 sum_list (map (\<lambda>j. drip_speed (dsm ! j)) (hits ds dsm k))"
      using sk unfolding hk by (rule arg_cong)
    have 1: "length dsk = length ds" using st(2) len by simp
    have 2: "\<forall>j. Suc k \<le> j \<longrightarrow> dsk ! j = ds ! j" using st(3) ih by auto
    have 3: "drip_x (dsk ! 0) = drip_x (ds ! 0)"
      using st(3) st(4) x0m by (cases "k = 0") auto
    have 4: "\<forall>j<Suc k. drip_active (ds ! j) \<noteq> 0 \<longrightarrow>
        (drip_active (dsk ! j) = 0 \<longleftrightarrow> size_t_to_float (drip_y (dsk ! j)) \<le> col_height ?c)"
      using ih old st(6) x0m hm by (auto simp: less_Suc_eq)
    have 5: "hits ds dsk (Suc k) \<noteq> [] \<longrightarrow> ?x0 < length (cols w)" using x0lt by simp
    show ?thesis
    proof (cases "drip_active (dsk ! k) = 0")
      case hit: True
      have h: "hits ds dsk (Suc k) = hits ds dsm k @ [k]" using False hit hk by (simp add: hits_Suc)
      have wk: "wk = wm\<lparr>cols := (cols wm)[?x0 := (cols wm ! ?x0)
                     \<lparr>col_speed := col_speed (cols wm ! ?x0) + drip_speed (dsk ! k)\<rparr>],
                  target_height := (if target_height wm < target_cap t
                                    then target_height wm + target_raise t else target_height wm)\<rparr>"
        using st(8) [OF hit] x0m by simp
      have 6: "cols wk = (cols w)[?x0 := ?c\<lparr>col_speed := col_speed ?c +
            sum_list (map (\<lambda>j. drip_speed (dsk ! j)) (hits ds dsk (Suc k)))\<rparr>]"
        unfolding wk h using x0lt by (simp add: colsm add.assoc sumeq del: map_eq_conv)
      have 7: "\<exists>m\<le>length (hits ds dsk (Suc k)).
        target_height wk = target_height w + real m * target_raise t \<and>
        (m < length (hits ds dsk (Suc k)) \<longrightarrow> target_cap t \<le> target_height wk) \<and>
        (0 < m \<longrightarrow> target_height wk < target_cap t + target_raise t)"
      proof (cases "target_height wm < target_cap t")
        case True
        then have mm: "m = length (hits ds dsm k)" using m by auto
        have "target_height wk = target_height w + real (Suc m) * target_raise t"
          using True m(2) by (simp add: wk algebra_simps)
        moreover have "target_height wk < target_cap t + target_raise t"
          using True by (simp add: wk)
        ultimately show ?thesis unfolding h using mm by (intro exI [of _ "Suc m"]) simp
      next
        case False
        then have "target_height wk = target_height wm" by (simp add: wk)
        then show ?thesis unfolding h using m False by (intro exI [of _ m]) auto
      qed
      show ?thesis using 1 2 3 4 5 6 7 by blast
    next
      case miss: False
      have h: "hits ds dsk (Suc k) = hits ds dsm k" using miss hk by (simp add: hits_Suc)
      have wk: "wk = wm" using st(7) [OF miss] .
      have 6: "cols wk = (cols w)[?x0 := ?c\<lparr>col_speed := col_speed ?c +
            sum_list (map (\<lambda>j. drip_speed (dsk ! j)) (hits ds dsk (Suc k)))\<rparr>]"
        unfolding wk h using colsm by (simp add: sumeq del: map_eq_conv)
      have 7: "\<exists>m\<le>length (hits ds dsk (Suc k)).
        target_height wk = target_height w + real m * target_raise t \<and>
        (m < length (hits ds dsk (Suc k)) \<longrightarrow> target_cap t \<le> target_height wk) \<and>
        (0 < m \<longrightarrow> target_height wk < target_cap t + target_raise t)"
        unfolding wk h using m by blast
      show ?thesis using 1 2 3 4 5 6 7 by blast
    qed
  qed
qed

lemma contacts_hits: "contacts ds ds' = hits ds ds' (length ds)"
  by (simp add: contacts_def hits_def)

lemma drips_update_loop:
  "drips_update t (Some ds) (Some w) = Inr (rc, Some ds', Some w') \<Longrightarrow>
   drips_loop t [0..<length ds] (ds, w) = Inr (ds', w') \<and> rc = 0"
  by (auto split: sum.splits)

text \<open>
  Claim C3. After a call of \<^verbatim>\<open>drips_update\<close> that ran through the pool, every drip
  that was active has become inactive exactly when its new \<^verbatim>\<open>y\<close> is at or below the
  height of the column under the \<^verbatim>\<open>x\<close> of slot 0, whatever its own \<^verbatim>\<open>x\<close> is; and the
  water columns are as before except that the speeds of the drips that met the water
  have all been added to the speed of that one column.
\<close>

theorem drips_update_first_slot_column:
  assumes "drips_update t (Some ds) (Some w) = Inr (rc, Some ds', Some w')"
  shows "(\<forall>i<length ds. drip_active (ds ! i) \<noteq> 0 \<longrightarrow>
            (drip_active (ds' ! i) = 0 \<longleftrightarrow>
             size_t_to_float (drip_y (ds' ! i)) \<le> col_height (cols w ! unat (drip_x (ds ! 0))))) \<and>
         cols w' = (cols w)[unat (drip_x (ds ! 0)) := (cols w ! unat (drip_x (ds ! 0)))
            \<lparr>col_speed := col_speed (cols w ! unat (drip_x (ds ! 0))) +
                sum_list (map (\<lambda>i. drip_speed (ds' ! i)) (contacts ds ds'))\<rparr>]"
  using drips_loop_inv [OF le_refl, of t ds w ds' w'] drips_update_loop [OF assms]
  unfolding contacts_hits by blast

text \<open>
  In the example the drip of slot 1 is over column 3, of height 2, and ends at
  \<^verbatim>\<open>y\<close> = 6: it meets column 1, of height 12. The drip of slot 2 is over column 2, of
  height 30, and ends at \<^verbatim>\<open>y\<close> = 24: it keeps falling.
\<close>

lemma pool3_update:
  "drips_update t4x20 (Some pool3) (Some w4) =
     Inr (0, Some [drip_at 1 39 (- 49 / 50),
                   \<lparr>drip_active = 0, drip_x = 3, drip_y = 6, drip_speed = - 149 / 50\<rparr>,
                   drip_at 2 24 (- 49 / 50)],
             Some \<lparr>cols = [column_at 8 0, column_at 12 (- 149 / 50), column_at 30 0, column_at 2 0],
                    target_height = 10, island_y = 14\<rparr>)"
  by (simp add: drip_step_def drip_at_def column_at_def GRAVITY_def FRAME_RATE_def
      size_t_to_float_def float_to_size_t_def c_truncate_def upt_rec Let_def
      t4x20_def pool3_def w4_def)

theorem drips_update_first_slot_column_witness:
  "drips_update t4x20 (Some pool3) (Some w4) =
     Inr (0, Some [drip_at 1 39 (- 49 / 50),
                   \<lparr>drip_active = 0, drip_x = 3, drip_y = 6, drip_speed = - 149 / 50\<rparr>,
                   drip_at 2 24 (- 49 / 50)],
             Some \<lparr>cols = [column_at 8 0, column_at 12 (- 149 / 50), column_at 30 0, column_at 2 0],
                    target_height = 10, island_y = 14\<rparr>) \<and>
   unat (drip_x (pool3 ! 0)) = 1 \<and>
   col_height (cols w4 ! 1) = 12 \<and>
   [column_at 8 0, column_at 12 (- 149 / 50), column_at 30 0, column_at 2 0] =
     (cols w4)[1 := (cols w4 ! 1)\<lparr>col_speed := col_speed (cols w4 ! 1) + (- 149 / 50)\<rparr>]"
proof -
  note concl = drips_update_first_slot_column [OF pool3_update]
  have x0: "unat (drip_x (pool3 ! 0)) = 1" by (simp add: pool3_def drip_at_def)
  have c: "contacts pool3 [drip_at 1 39 (- 49 / 50),
                   \<lparr>drip_active = 0, drip_x = 3, drip_y = 6, drip_speed = - 149 / 50\<rparr>,
                   drip_at 2 24 (- 49 / 50)] = [1]"
    by (simp add: contacts_def pool3_def drip_at_def upt_rec)
  have "[column_at 8 0, column_at 12 (- 149 / 50), column_at 30 0, column_at 2 0] =
     (cols w4)[1 := (cols w4 ! 1)\<lparr>col_speed := col_speed (cols w4 ! 1) + (- 149 / 50)\<rparr>]"
    using concl unfolding x0 c by simp
  moreover have "col_height (cols w4 ! 1) = 12" by (simp add: w4_def column_at_def)
  ultimately show ?thesis using pool3_update x0 by blast
qed

text \<open>
  Claim C7, as amended. Of the drips that meet the water in one call of
  \<^verbatim>\<open>drips_update\<close>, the first \<open>m\<close> raise \<^verbatim>\<open>target_height\<close> by \<^verbatim>\<open>8/width\<close> each, and
  the others leave it as it is: an impact raises it only when it is below
  \<^verbatim>\<open>(height-3)*8\<close> at that moment. If some impact did not raise it, it is at or
  above that bound after the call; if some impact raised it, it is below the bound
  plus \<^verbatim>\<open>8/width\<close>. The bound itself can be exceeded.
\<close>

theorem drips_update_target_height:
  assumes "drips_update t (Some ds) (Some w) = Inr (rc, Some ds', Some w')"
  shows "\<exists>m\<le>length (contacts ds ds').
           target_height w' = target_height w + real m * target_raise t \<and>
           (m < length (contacts ds ds') \<longrightarrow> target_cap t \<le> target_height w') \<and>
           (0 < m \<longrightarrow> target_height w' < target_cap t + target_raise t)"
  using drips_loop_inv [OF le_refl, of t ds w ds' w'] drips_update_loop [OF assms]
  unfolding contacts_hits by blast

lemma single_impact:
  "drips_update t4x20 (Some [drip_at 1 9 (- 2)]) (Some w4) =
     Inr (0, Some [\<lparr>drip_active = 0, drip_x = 1, drip_y = 6, drip_speed = - 149 / 50\<rparr>],
             Some \<lparr>cols = [column_at 8 0, column_at 12 (- 149 / 50), column_at 30 0, column_at 2 0],
                    target_height = 10, island_y = 14\<rparr>)"
  by (simp add: drip_step_def drip_at_def column_at_def GRAVITY_def FRAME_RATE_def
      size_t_to_float_def float_to_size_t_def c_truncate_def Let_def t4x20_def w4_def)

theorem drips_update_target_height_witness:
  "drips_update t4x20 (Some [drip_at 1 9 (- 2)]) (Some w4) =
     Inr (0, Some [\<lparr>drip_active = 0, drip_x = 1, drip_y = 6, drip_speed = - 149 / 50\<rparr>],
             Some \<lparr>cols = [column_at 8 0, column_at 12 (- 149 / 50), column_at 30 0, column_at 2 0],
                    target_height = 10, island_y = 14\<rparr>) \<and>
   target_height w4 = 8 \<and> target_raise t4x20 = 2 \<and> target_cap t4x20 = 136 \<and>
   (\<exists>m\<le>1. (10 :: real) = 8 + real m * 2 \<and> (0 < m \<longrightarrow> (10 :: real) < 136 + 2))"
proof -
  note concl = drips_update_target_height [OF single_impact]
  have c: "contacts [drip_at 1 9 (- 2)]
             [\<lparr>drip_active = 0, drip_x = 1, drip_y = 6, drip_speed = - 149 / 50\<rparr>] = [0]"
    by (simp add: contacts_def drip_at_def)
  have t: "target_height w4 = 8" by (simp add: w4_def)
  have r: "target_raise t4x20 = 2" by (simp add: target_raise_def t4x20_def size_t_to_float_def)
  have k: "target_cap t4x20 = 136" by (simp add: target_cap_def t4x20_def size_t_to_float_def)
  have "\<exists>m\<le>1. (10 :: real) = 8 + real m * 2 \<and> (0 < m \<longrightarrow> (10 :: real) < 136 + 2)"
    using concl unfolding c t r k by auto
  then show ?thesis using single_impact t r k by blast
qed

text \<open>
  The claim as stated has every impact raise \<^verbatim>\<open>target_height\<close> by \<^verbatim>\<open>8/width\<close>, and
  the bound never exceeded. On a terminal of 3 rows the bound is 0 and the water rests
  at target height 8. A drip spawned at \<^verbatim>\<open>y\<close> = 8 meets the water in its first step:
  the target height is not raised, and it stays above the bound.
\<close>

theorem drips_update_target_counterexample:
  "water_update (t4x3\<lparr>ts_updated := 1\<rparr>) (Some col0)
     (Some \<lparr>cols = [], target_height = 0, island_y = 0\<rparr>) = Inr (0, Some w4x3) \<and>
   drips_generate t4x3 (Some (drip_at 0 0 0)) (Some drips_init) 1 = (0, Some [drip_at 1 8 0]) \<and>
   drips_update t4x3 (Some [drip_at 1 8 0]) (Some w4x3) =
     Inr (0, Some [\<lparr>drip_active = 0, drip_x = 1, drip_y = 7, drip_speed = - 49 / 50\<rparr>],
             Some \<lparr>cols = [col0, column_at 8 (- 49 / 50), col0, col0],
                    target_height = 8, island_y = 1\<rparr>) \<and>
   target_height w4x3 = 8 \<and> target_raise t4x3 = 2 \<and> target_cap t4x3 = 0"
proof -
  have "drips_generate t4x3 (Some (drip_at 0 0 0)) (Some drips_init) 1 = (0, Some [drip_at 1 8 0])"
    by (simp add: t4x3_def drip_at_def drips_init_def)
  moreover have "drips_update t4x3 (Some [drip_at 1 8 0]) (Some w4x3) =
     Inr (0, Some [\<lparr>drip_active = 0, drip_x = 1, drip_y = 7, drip_speed = - 49 / 50\<rparr>],
             Some \<lparr>cols = [col0, column_at 8 (- 49 / 50), col0, col0],
                    target_height = 8, island_y = 1\<rparr>)"
    by (simp add: drip_step_def drip_at_def column_at_def col0_def GRAVITY_def FRAME_RATE_def
        size_t_to_float_def float_to_size_t_def c_truncate_def Let_def t4x3_def w4x3_def)
  moreover have "target_height w4x3 = 8 \<and> target_raise t4x3 = 2 \<and> target_cap t4x3 = 0"
    by (simp add: size_t_to_float_def t4x3_def w4x3_def target_raise_def target_cap_def)
  ultimately show ?thesis using w4x3_reached by blast
qed

subsection \<open>A single falling drip\<close>

lemma float_to_size_t_floor:
  assumes "0 \<le> r" "r < 2 ^ 64"
  shows "\<exists>y. float_to_size_t r = Inr y \<and> size_t_to_float y = real_of_int \<lfloor>r\<rfloor>"
proof -
  have f0: "0 \<le> \<lfloor>r\<rfloor>" using assms by simp
  have f1: "\<lfloor>r\<rfloor> < 2 ^ 64" using assms by (simp add: floor_less_iff)
  have "uint (word_of_int \<lfloor>r\<rfloor> :: size_t) = \<lfloor>r\<rfloor>"
    using f0 f1 by (simp add: uint_word_of_int)
  then have "int (unat (word_of_int \<lfloor>r\<rfloor> :: size_t)) = \<lfloor>r\<rfloor>" by simp
  then have "real (unat (word_of_int \<lfloor>r\<rfloor> :: size_t)) = real_of_int \<lfloor>r\<rfloor>"
    by (metis of_int_of_nat_eq)
  then show ?thesis using assms by (simp add: float_to_size_t_def c_truncate_def size_t_to_float_def)
qed

lemma size_t_to_float_bounds: "0 \<le> size_t_to_float y" "size_t_to_float y < 2 ^ 64"
proof -
  show "0 \<le> size_t_to_float y" unfolding size_t_to_float_def by (rule of_nat_0_le_iff)
  have "unat y < 2 ^ 64" using unsigned_less [of y] by simp
  then have "real (unat y) < real (2 ^ 64)" by (rule of_nat_less_iff [THEN iffD2])
  then show "size_t_to_float y < 2 ^ 64" unfolding size_t_to_float_def by simp
qed

lemma GRAVITY_pos: "0 < GRAVITY"
  by (simp add: GRAVITY_def FRAME_RATE_def)

lemma single_drip_step:
  assumes "v \<le> 0" "unat x < length (cols w)"
    and "col_height (cols w ! unat x) < size_t_to_float y + v - GRAVITY - 1"
    and "0 \<le> col_height (cols w ! unat x)"
  shows "\<exists>y'. drips_update t (Some [drip_at x y v]) (Some w) =
                 Inr (0, Some [drip_at x y' (v - GRAVITY)], Some w) \<and>
              size_t_to_float y + v - GRAVITY - 1 < size_t_to_float y' \<and>
              size_t_to_float y' \<le> size_t_to_float y + v - GRAVITY"
proof -
  let ?r = "size_t_to_float y + (v - GRAVITY)"
  have r0: "0 \<le> ?r" using assms by simp
  have r1: "?r < 2 ^ 64" using size_t_to_float_bounds(2) [of y] assms(1) GRAVITY_pos by simp
  obtain y' where y': "float_to_size_t ?r = Inr y'" "size_t_to_float y' = real_of_int \<lfloor>?r\<rfloor>"
    using float_to_size_t_floor [OF r0 r1] by blast
  have notlt: "\<not> size_t_to_float y < v - GRAVITY"
    using size_t_to_float_bounds(1) [of y] assms(1) GRAVITY_pos by simp
  have lo: "?r - 1 < size_t_to_float y'" unfolding y'(2) by linarith
  have hi: "size_t_to_float y' \<le> ?r" unfolding y'(2) by linarith
  have miss: "\<not> size_t_to_float y' \<le> col_height (cols w ! unat x)" using lo assms(3) by simp
  have "drip_step t 0 ([drip_at x y v], w) = Inr ([drip_at x y' (v - GRAVITY)], w)"
    using notlt y'(1) miss assms(2) by (simp add: drip_step_def drip_at_def Let_def)
  then have "drips_update t (Some [drip_at x y v]) (Some w) =
                 Inr (0, Some [drip_at x y' (v - GRAVITY)], Some w)"
    by (simp add: upt_rec)
  then show ?thesis using lo hi by (intro exI [of _ y']) simp
qed

lemma triangle_Suc: "real (Suc n) * (real (Suc n) + 1) / 2 = real n * (real n + 1) / 2 + real (Suc n)"
  by (simp add: field_simps)

lemma single_drip_fall:
  assumes "unat x < length (cols w)" "0 \<le> col_height (cols w ! unat x)"
  shows "v \<le> 0 \<Longrightarrow>
     col_height (cols w ! unat x) <
       size_t_to_float y + real n * v - GRAVITY * (real n * (real n + 1) / 2) - real n \<Longrightarrow>
     \<exists>y'. drips_updates t n ([drip_at x y v], w) = Inr ([drip_at x y' (v - GRAVITY * real n)], w) \<and>
       size_t_to_float y + real n * v - GRAVITY * (real n * (real n + 1) / 2) - real n
         \<le> size_t_to_float y' \<and>
       size_t_to_float y' \<le> size_t_to_float y + real n * v - GRAVITY * (real n * (real n + 1) / 2)"
proof (induction n arbitrary: y v)
  case 0
  show ?case by (intro exI [of _ y]) simp
next
  case (Suc n)
  let ?H = "col_height (cols w ! unat x)"
  let ?T = "real n * (real n + 1) / 2"
  have g: "0 < GRAVITY" by (rule GRAVITY_pos)
  have nv: "real n * v \<le> 0" using Suc.prems(1) by (simp add: mult_nonneg_nonpos)
  have gt: "0 \<le> GRAVITY * ?T" using g by simp
  have triangle': "GRAVITY * (real (Suc n) * (real (Suc n) + 1) / 2) =
              GRAVITY * ?T + GRAVITY * real n + GRAVITY"
    unfolding triangle_Suc by (simp add: algebra_simps)
  have sv: "real (Suc n) * v = real n * v + v" by (simp add: algebra_simps)
  have dist: "real n * (v - GRAVITY) = real n * v - GRAVITY * real n" by (simp add: algebra_simps)
  have hyp: "?H < size_t_to_float y + real n * v + v
                  - GRAVITY * ?T - GRAVITY * real n - GRAVITY - real n - 1"
    using Suc.prems(2) unfolding triangle' sv by simp
  have gn: "0 \<le> GRAVITY * real n" using g by simp
  have n0: "0 \<le> real n" by simp
  have first: "?H < size_t_to_float y + v - GRAVITY - 1"
    using hyp nv gt gn n0 by linarith
  obtain y1 where y1: "drips_update t (Some [drip_at x y v]) (Some w) =
                 Inr (0, Some [drip_at x y1 (v - GRAVITY)], Some w)"
      "size_t_to_float y + v - GRAVITY - 1 < size_t_to_float y1"
      "size_t_to_float y1 \<le> size_t_to_float y + v - GRAVITY"
    using single_drip_step [OF Suc.prems(1) assms(1) first assms(2)] by blast
  have v1: "v - GRAVITY \<le> 0" using Suc.prems(1) g by simp
  have next_hyp: "?H < size_t_to_float y1 + real n * (v - GRAVITY) - GRAVITY * ?T - real n"
    unfolding dist using hyp y1(2) by linarith
  obtain y' where y': "drips_updates t n ([drip_at x y1 (v - GRAVITY)], w) =
        Inr ([drip_at x y' (v - GRAVITY - GRAVITY * real n)], w)"
      "size_t_to_float y1 + real n * (v - GRAVITY) - GRAVITY * ?T - real n \<le> size_t_to_float y'"
      "size_t_to_float y' \<le> size_t_to_float y1 + real n * (v - GRAVITY) - GRAVITY * ?T"
    using Suc.IH [OF v1 next_hyp] by blast
  have sp: "v - GRAVITY - GRAVITY * real n = v - GRAVITY * real (Suc n)" by (simp add: algebra_simps)
  have run: "drips_updates t (Suc n) ([drip_at x y v], w) =
        Inr ([drip_at x y' (v - GRAVITY * real (Suc n))], w)"
    using y1(1) y'(1) unfolding sp by simp
  have lo: "size_t_to_float y + real (Suc n) * v
              - GRAVITY * (real (Suc n) * (real (Suc n) + 1) / 2) - real (Suc n)
            \<le> size_t_to_float y'"
    unfolding triangle' sv using y'(2) y1(2) unfolding dist by simp
  have hi: "size_t_to_float y' \<le> size_t_to_float y + real (Suc n) * v
              - GRAVITY * (real (Suc n) * (real (Suc n) + 1) / 2)"
    unfolding triangle' sv using y'(3) y1(3) unfolding dist by simp
  show ?case using run lo hi by blast
qed

lemma drips_generate_empty:
  "drips_generate t (Some d) (Some []) x = (rc, Some ds) \<Longrightarrow>
   ds = [drip_at x ((ts_height t - 2) * 8) 0]"
  by (auto simp: drip_at_def)

lemmas drip_eval = drip_step_def drip_at_def col0_def GRAVITY_def FRAME_RATE_def
      size_t_to_float_def float_to_size_t_def c_truncate_def Let_def

lemma fall_step_1: "drips_update t40x20 (Some [drip_at 20 144 0]) (Some w40) =
     Inr (0, Some [drip_at 20 143 (- 0.98)], Some w40)"
  by (simp add: drip_eval w40_def t40x20_def)

lemma fall_step_2: "drips_update t40x20 (Some [drip_at 20 143 (- 0.98)]) (Some w40) =
     Inr (0, Some [drip_at 20 141 (- 1.96)], Some w40)"
  by (simp add: drip_eval w40_def t40x20_def)

lemma fall_step_3: "drips_update t40x20 (Some [drip_at 20 141 (- 1.96)]) (Some w40) =
     Inr (0, Some [drip_at 20 138 (- 2.94)], Some w40)"
  by (simp add: drip_eval w40_def t40x20_def)

lemma fall_step_4: "drips_update t40x20 (Some [drip_at 20 138 (- 2.94)]) (Some w40) =
     Inr (0, Some [drip_at 20 134 (- 3.92)], Some w40)"
  by (simp add: drip_eval w40_def t40x20_def)

lemma fall_step_5: "drips_update t40x20 (Some [drip_at 20 134 (- 3.92)]) (Some w40) =
     Inr (0, Some [drip_at 20 129 (- 4.9)], Some w40)"
  by (simp add: drip_eval w40_def t40x20_def)

lemma fall_20_5:
  "drips_updates t40x20 5 ([drip_at 20 144 0], w40) = Inr ([drip_at 20 129 (- 4.9)], w40)"
proof -
  have five: "(5::nat) = Suc (Suc (Suc (Suc (Suc 0))))" by simp
  show ?thesis
    by (simp only: five drips_updates.simps fst_conv snd_conv fall_step_1 fall_step_2 fall_step_3 fall_step_4 fall_step_5
        sum.case prod.case option.case)
qed

text \<open>
  Claim C4, as amended. The \<^verbatim>\<open>y\<close> of a drip is a \<^verbatim>\<open>size_t\<close>: each call of
  \<^verbatim>\<open>drips_update\<close> takes \<^verbatim>\<open>g\<close> from the speed and replaces \<^verbatim>\<open>y\<close> by \<^verbatim>\<open>y + speed\<close> with
  the fraction cut off. For a drip spawned alone at \<^verbatim>\<open>y = (H-2)*8\<close> with speed 0, as
  long as the column it is tested against lies at or above 0 and below
  \<^verbatim>\<open>(H-2)*8 - g*N*(N+1)/2 - N\<close>, there is no contact: after \<open>N\<close> calls the drip is still
  active, its speed is \<^verbatim>\<open>-g*N\<close>, and its \<^verbatim>\<open>y\<close> lies between
  \<^verbatim>\<open>(H-2)*8 - g*N*(N+1)/2 - N\<close> and \<^verbatim>\<open>(H-2)*8 - g*N*(N+1)/2\<close>. For \<^verbatim>\<open>H = 20\<close> after 5
  calls the speed is -4.9 and \<^verbatim>\<open>y\<close> is 129.
\<close>

theorem drip_fall_truncated:
  "(drips_generate t (Some d) (Some []) x = (rc, Some ds) \<and>
    unat x < length (cols w) \<and>
    0 \<le> col_height (cols w ! unat x) \<and>
    col_height (cols w ! unat x) <
      size_t_to_float ((ts_height t - 2) * 8) - GRAVITY * (real n * (real n + 1) / 2) - real n \<longrightarrow>
    (\<exists>y. drips_updates t n (ds, w) =
            Inr ([\<lparr>drip_active = 1, drip_x = x, drip_y = y,
                    drip_speed = - (GRAVITY * real n)\<rparr>], w) \<and>
          size_t_to_float ((ts_height t - 2) * 8) - GRAVITY * (real n * (real n + 1) / 2) - real n
            \<le> size_t_to_float y \<and>
          size_t_to_float y
            \<le> size_t_to_float ((ts_height t - 2) * 8) - GRAVITY * (real n * (real n + 1) / 2))) \<and>
   drips_updates t40x20 5 ([drip_at 20 ((ts_height t40x20 - 2) * 8) 0], w40) =
     Inr ([drip_at 20 129 (- 4.9)], w40)"
proof (intro conjI impI)
  assume asm: "drips_generate t (Some d) (Some []) x = (rc, Some ds) \<and>
    unat x < length (cols w) \<and>
    0 \<le> col_height (cols w ! unat x) \<and>
    col_height (cols w ! unat x) <
      size_t_to_float ((ts_height t - 2) * 8) - GRAVITY * (real n * (real n + 1) / 2) - real n"
  have gen: "drips_generate t (Some d) (Some []) x = (rc, Some ds)" using asm by simp
  have ds: "ds = [drip_at x ((ts_height t - 2) * 8) 0]"
    using gen by (rule drips_generate_empty)
  have v: "(0::real) \<le> 0" by simp
  have x: "unat x < length (cols w)" and h0: "0 \<le> col_height (cols w ! unat x)"
    using asm by simp_all
  have h: "col_height (cols w ! unat x) <
       size_t_to_float ((ts_height t - 2) * 8) + real n * 0
         - GRAVITY * (real n * (real n + 1) / 2) - real n"
    using asm by simp
  show "\<exists>y. drips_updates t n (ds, w) =
            Inr ([\<lparr>drip_active = 1, drip_x = x, drip_y = y,
                    drip_speed = - (GRAVITY * real n)\<rparr>], w) \<and>
          size_t_to_float ((ts_height t - 2) * 8) - GRAVITY * (real n * (real n + 1) / 2) - real n
            \<le> size_t_to_float y \<and>
          size_t_to_float y
            \<le> size_t_to_float ((ts_height t - 2) * 8) - GRAVITY * (real n * (real n + 1) / 2)"
    using single_drip_fall [OF x h0 v h, of t] unfolding ds
    by (simp add: drip_at_def)
next
  have "(ts_height t40x20 - 2) * 8 = 144" by (simp add: t40x20_def)
  then show "drips_updates t40x20 5 ([drip_at 20 ((ts_height t40x20 - 2) * 8) 0], w40) =
     Inr ([drip_at 20 129 (- 4.9)], w40)"
    using fall_20_5 by simp
qed

theorem drip_fall_truncated_witness:
  "drips_generate t40x20 (Some (drip_at 0 0 0)) (Some drips_init) 20 = (0, Some [drip_at 20 144 0]) \<and>
   unat (20 :: size_t) < length (cols w40) \<and>
   0 \<le> col_height (cols w40 ! unat (20 :: size_t)) \<and>
   col_height (cols w40 ! unat (20 :: size_t)) <
     size_t_to_float ((ts_height t40x20 - 2) * 8) - GRAVITY * (real 5 * (real 5 + 1) / 2) - real 5 \<and>
   (\<exists>y. drips_updates t40x20 5 ([drip_at 20 144 0], w40) =
          Inr ([\<lparr>drip_active = 1, drip_x = 20, drip_y = y, drip_speed = - (GRAVITY * real 5)\<rparr>], w40) \<and>
        124.3 \<le> size_t_to_float y \<and> size_t_to_float y \<le> 129.3)"
proof -
  have 1: "drips_generate t40x20 (Some (drip_at 0 0 0)) (Some []) 20 = (0, Some [drip_at 20 144 0])"
    by (simp add: t40x20_def drip_at_def)
  have 2: "unat (20 :: size_t) < length (cols w40)" by (simp add: w40_def)
  have 3: "0 \<le> col_height (cols w40 ! unat (20 :: size_t))" by (simp add: w40_def col0_def)
  have 4: "col_height (cols w40 ! unat (20 :: size_t)) <
     size_t_to_float ((ts_height t40x20 - 2) * 8) - GRAVITY * (real 5 * (real 5 + 1) / 2) - real 5"
    by (simp add: w40_def col0_def t40x20_def size_t_to_float_def GRAVITY_def FRAME_RATE_def)
  have 5: "size_t_to_float ((ts_height t40x20 - 2) * 8) - GRAVITY * (real 5 * (real 5 + 1) / 2) = 129.3"
    by (simp add: t40x20_def size_t_to_float_def GRAVITY_def FRAME_RATE_def)
  have 6: "(129.3 :: real) - real 5 = 124.3" by simp
  have "\<exists>y. drips_updates t40x20 5 ([drip_at 20 144 0], w40) =
          Inr ([\<lparr>drip_active = 1, drip_x = 20, drip_y = y, drip_speed = - (GRAVITY * real 5)\<rparr>], w40) \<and>
        124.3 \<le> size_t_to_float y \<and> size_t_to_float y \<le> 129.3"
    using drip_fall_truncated [of t40x20 "drip_at 0 0 0" 20 0 "[drip_at 20 144 0]" w40 5] 1 2 3 4
    unfolding 5 6 by blast
  then show ?thesis using 1 2 3 4 by (simp add: drips_init_def)
qed

text \<open>
  The claim as stated gives \<^verbatim>\<open>y\<close> = 129.3 for \<^verbatim>\<open>H = 20\<close> after 5 steps. The drip is
  spawned at 144 and steps through 143, 141, 138 and 134 to 129, which is 0.3 away.
\<close>

theorem drip_fall_counterexample:
  "drips_generate t40x20 (Some (drip_at 0 0 0)) (Some drips_init) 20 = (0, Some [drip_at 20 144 0]) \<and>
   drips_updates t40x20 5 ([drip_at 20 144 0], w40) = Inr ([drip_at 20 129 (- 4.9)], w40) \<and>
   \<bar>size_t_to_float 129 - 129.3\<bar> = 0.3"
  using fall_20_5 by (simp add: t40x20_def drip_at_def drips_init_def size_t_to_float_def)

section \<open>Properties of the renderer\<close>

lemma no_SetColor_simps [simp]:
  "no_SetColor []"
  "no_SetColor (c # cs) \<longleftrightarrow> \<not> is_SetColor c \<and> no_SetColor cs"
  "no_SetColor (xs @ ys) \<longleftrightarrow> no_SetColor xs \<and> no_SetColor ys"
  by (simp_all add: no_SetColor_def)

lemma render_island_outside:
  "island_colour t w y x = None \<Longrightarrow> mode st \<noteq> CM_ISLAND \<Longrightarrow>
   render_island t w y x st = (st, [])"
  by (simp add: render_island_def)

lemma render_island_mode:
  "island_colour t w y x = None \<Longrightarrow> mode (fst (render_island t w y x st)) \<noteq> CM_ISLAND"
  by (simp add: render_island_def)

lemma render_drips_none:
  "\<forall>d\<in>set ds. \<not> drip_in_cell t y x d \<Longrightarrow> render_drips t y x ds st = (st, [])"
  by (induction ds arbitrary: st) auto

lemma render_drips_water_fg:
  "mode st = CM_WATER_FG \<Longrightarrow>
   fst (render_drips t y x ds st) = st \<and> no_SetColor (snd (render_drips t y x ds st))"
proof (induction ds)
  case Nil
  then show ?case by simp
next
  case (Cons d ds)
  have eq: "st\<lparr>mode := CM_WATER_FG\<rparr> = st" using Cons.prems by simp
  show ?case using Cons by (simp add: Let_def eq)
qed

lemma render_drips_mode:
  "mode (fst (render_drips t y x ds st)) = mode st \<or>
   mode (fst (render_drips t y x ds st)) = CM_WATER_FG"
proof (induction ds arbitrary: st)
  case Nil
  then show ?case by simp
next
  case (Cons d ds)
  show ?case using Cons [of st] Cons [of "st\<lparr>mode := CM_WATER_FG\<rparr>"] by (auto simp: Let_def)
qed

lemma render_water_same_mode:
  "render_water t w y x st = Inr (st', out) \<Longrightarrow> mode st' = CM_ISLAND \<Longrightarrow>
   mode st = CM_ISLAND"
  "render_water t w y x st = Inr (st', out) \<Longrightarrow> mode st' = mode st \<Longrightarrow> no_SetColor out"
  by (auto simp: render_water_def Let_def split: if_splits sum.splits)

lemma render_cloud_water_same_mode:
  "render_cloud_water t w c y x st = Inr (st', out) \<Longrightarrow> mode st' = CM_ISLAND \<Longrightarrow>
   mode st = CM_ISLAND"
  "render_cloud_water t w c y x st = Inr (st', out) \<Longrightarrow> mode st' = mode st \<Longrightarrow> no_SetColor out"
  by (auto simp: render_cloud_water_def split: if_splits sum.splits
      dest: render_water_same_mode)

lemmas render_eval = render_cell_def render_island_def island_colour_def render_cloud_water_def
  render_water_def water_glyph_def float_to_int_def c_truncate_def size_t_to_float_def
  fgcolors_def bgcolors_def water_chars_def cloud_char_def drip_char_def
  col0_def Let_def

lemma cell_2_3:
  "render_cell t8x4 w8 [] cloud0 2 3 \<lparr>move = 0, mode = CM_WATER_FG\<rparr> =
     Inr (\<lparr>move = 0, mode = CM_ISLAND\<rparr>,
          [SetColor [34, 103], WriteGlyph [CHR 0xE2, CHR 0x96, CHR 0x81]])"
  by (simp add: render_eval t8x4_def w8_def cloud0_def)

lemma cell_2_4:
  "render_cell t8x4 w8 [] cloud0 2 4 \<lparr>move = 0, mode = CM_ISLAND\<rparr> =
     Inr (\<lparr>move = 0, mode = CM_ISLAND\<rparr>,
          [SetColor [34, 103], WriteGlyph [CHR 0xE2, CHR 0x96, CHR 0x81]])"
  by (simp add: render_eval t8x4_def w8_def cloud0_def)

lemma cell_2_6:
  "render_cell t8x4 w8 [] cloud0 2 6 \<lparr>move = 0, mode = CM_ISLAND\<rparr> =
     Inr (\<lparr>move = 0, mode = CM_WATER_FG\<rparr>,
          [SetColor [30, 40], SetColor [34, 40], WriteGlyph [CHR 0xE2, CHR 0x96, CHR 0x81]])"
  by (simp add: render_eval t8x4_def w8_def cloud0_def)

lemma cell_2_7:
  "render_cell t8x4 w8 [] cloud0 2 7 \<lparr>move = 0, mode = CM_WATER_FG\<rparr> =
     Inr (\<lparr>move = 0, mode = CM_WATER_FG\<rparr>, [WriteGlyph [CHR 0xE2, CHR 0x96, CHR 0x81]])"
  by (simp add: render_eval t8x4_def w8_def cloud0_def)

lemma row_2:
  "render_row t8x4 w8 [] cloud0 2 [0..<unat (ts_width t8x4)] \<lparr>move = 1, mode = CM_UNKNOWN\<rparr> =
     Inr (\<lparr>move = 0, mode = CM_WATER_FG\<rparr>,
      [MoveCursor 3 1, SetColor [97, 40], WriteGlyph '' @@@ '', MoveCursor 3 2,
      SetColor [34, 40], WriteGlyph [CHR 0xE2, CHR 0x96, CHR 0x81],
      WriteGlyph [CHR 0xE2, CHR 0x96, CHR 0x81], SetColor [34, 103],
      WriteGlyph [CHR 0xE2, CHR 0x96, CHR 0x81], SetColor [34, 103],
      WriteGlyph [CHR 0xE2, CHR 0x96, CHR 0x81], SetColor [34, 103],
      WriteGlyph [CHR 0xE2, CHR 0x96, CHR 0x81], SetColor [30, 40],
      SetColor [34, 40], WriteGlyph [CHR 0xE2, CHR 0x96, CHR 0x81],
      WriteGlyph [CHR 0xE2, CHR 0x96, CHR 0x81]])"
  by (simp add: render_eval t8x4_def w8_def cloud0_def upt_rec word_le_nat_alt)

text \<open>
  Claim C6, as amended. Take two cells next to each other in a row, the second outside
  the island silhouette, and either with no active drip drawn in it or reached in
  water foreground mode. If the colour mode after the second cell is the colour mode
  after the first, no \<open>SetColor\<close> is printed while the second cell is rendered. A cell
  inside the island silhouette always prints one, as the first thing it prints.
\<close>

theorem render_no_redundant_SetColor:
  "(render_cell t w ds c y x st0 = Inr (st1, out1) \<and>
    render_cell t w ds c y (x + 1) st1 = Inr (st2, out2) \<and>
    mode st2 = mode st1 \<and>
    island_colour t w y (x + 1) = None \<and>
    ((\<forall>d\<in>set ds. \<not> drip_in_cell t y (x + 1) d) \<or> mode st1 = CM_WATER_FG) \<longrightarrow>
    no_SetColor out2) \<and>
   (render_cell t w ds c y x st0 = Inr (st1, out1) \<and> island_colour t w y x = Some ps \<longrightarrow>
    (\<exists>out'. out1 = SetColor ps # out'))"
proof (intro conjI impI)
  assume asm: "render_cell t w ds c y x st0 = Inr (st1, out1) \<and>
    render_cell t w ds c y (x + 1) st1 = Inr (st2, out2) \<and>
    mode st2 = mode st1 \<and>
    island_colour t w y (x + 1) = None \<and>
    ((\<forall>d\<in>set ds. \<not> drip_in_cell t y (x + 1) d) \<or> mode st1 = CM_WATER_FG)"
  then have second: "render_cell t w ds c y (x + 1) st1 = Inr (st2, out2)"
    and same: "mode st2 = mode st1"
    and outside: "island_colour t w y (x + 1) = None"
    and drips: "(\<forall>d\<in>set ds. \<not> drip_in_cell t y (x + 1) d) \<or> mode st1 = CM_WATER_FG"
    by simp_all
  obtain sa oa where a: "render_island t w y (x + 1) st1 = (sa, oa)" by fastforce
  obtain sb ob where b: "render_drips t y (x + 1) ds sa = (sb, ob)" by fastforce
  have cw: "render_cloud_water t w c y (x + 1) sb = Inr (st2, out3) \<and> out2 = oa @ ob @ out3"
    if "out3 = drop (length oa + length ob) out2" for out3
    using second that by (auto simp: render_cell_def a b split: sum.splits)
  then obtain oc where c: "render_cloud_water t w c y (x + 1) sb = Inr (st2, oc)"
    and out2: "out2 = oa @ ob @ oc" by blast
  have sa_ni: "mode sa \<noteq> CM_ISLAND"
    using render_island_mode [OF outside, of st1] a by simp
  have sb_ni: "mode sb \<noteq> CM_ISLAND"
    using render_drips_mode [of t y "x + 1" ds sa] b sa_ni by auto
  have st2_ni: "mode st2 \<noteq> CM_ISLAND"
    using render_cloud_water_same_mode(1) [OF c] sb_ni by blast
  then have st1_ni: "mode st1 \<noteq> CM_ISLAND" using same by simp
  have a': "sa = st1" "oa = []"
    using render_island_outside [OF outside st1_ni] a by simp_all
  have b': "sb = st1 \<and> no_SetColor ob"
    using drips
  proof
    assume "\<forall>d\<in>set ds. \<not> drip_in_cell t y (x + 1) d"
    then show ?thesis using render_drips_none [of ds t y "x + 1" sa] b a' by simp
  next
    assume "mode st1 = CM_WATER_FG"
    then show ?thesis using render_drips_water_fg [of sa t y "x + 1" ds] b a' by simp
  qed
  have "no_SetColor oc"
    using render_cloud_water_same_mode(2) [OF c] b' same by simp
  then show "no_SetColor out2" using out2 a' b' by simp
next
  assume "render_cell t w ds c y x st0 = Inr (st1, out1) \<and> island_colour t w y x = Some ps"
  then show "\<exists>out'. out1 = SetColor ps # out'"
    by (auto simp: render_cell_def render_island_def split: prod.splits sum.splits)
qed

theorem render_no_redundant_SetColor_witness:
  "render_cell t8x4 w8 [] cloud0 2 6 \<lparr>move = 0, mode = CM_ISLAND\<rparr> =
     Inr (\<lparr>move = 0, mode = CM_WATER_FG\<rparr>,
          [SetColor [30, 40], SetColor [34, 40], WriteGlyph [CHR 0xE2, CHR 0x96, CHR 0x81]]) \<and>
   render_cell t8x4 w8 [] cloud0 2 (6 + 1) \<lparr>move = 0, mode = CM_WATER_FG\<rparr> =
     Inr (\<lparr>move = 0, mode = CM_WATER_FG\<rparr>, [WriteGlyph [CHR 0xE2, CHR 0x96, CHR 0x81]]) \<and>
   island_colour t8x4 w8 2 (6 + 1) = None \<and>
   no_SetColor [WriteGlyph [CHR 0xE2, CHR 0x96, CHR 0x81]] \<and>
   render_cell t8x4 w8 [] cloud0 2 4 \<lparr>move = 0, mode = CM_ISLAND\<rparr> =
     Inr (\<lparr>move = 0, mode = CM_ISLAND\<rparr>,
          [SetColor [34, 103], WriteGlyph [CHR 0xE2, CHR 0x96, CHR 0x81]]) \<and>
   island_colour t8x4 w8 2 4 = Some [34, 103] \<and>
   (\<exists>out'. [SetColor [34, 103], WriteGlyph [CHR 0xE2, CHR 0x96, CHR 0x81]] =
            SetColor [34, 103] # out')"
proof -
  let ?g = "WriteGlyph [CHR 0xE2, CHR 0x96, CHR 0x81]"
  let ?fg = "\<lparr>move = 0, mode = CM_WATER_FG\<rparr>"
  let ?is = "\<lparr>move = 0, mode = CM_ISLAND\<rparr>"
  have 1: "render_cell t8x4 w8 [] cloud0 2 6 ?is =
     Inr (?fg, [SetColor [30, 40], SetColor [34, 40], ?g])"
    by (rule cell_2_6)
  have 2: "render_cell t8x4 w8 [] cloud0 2 (6 + 1) ?fg = Inr (?fg, [?g])"
    using cell_2_7 by simp
  have 3: "mode ?fg = mode ?fg" by simp
  have 4: "island_colour t8x4 w8 2 (6 + 1) = None"
    by (simp add: island_colour_def t8x4_def w8_def Let_def)
  have 5: "(\<forall>d\<in>set []. \<not> drip_in_cell t8x4 2 (6 + 1) d) \<or> mode ?fg = CM_WATER_FG"
    by simp
  have 6: "island_colour t8x4 w8 2 4 = Some [34, 103]"
    by (simp add: island_colour_def t8x4_def w8_def Let_def fgcolors_def bgcolors_def
        word_le_nat_alt)
  have a: "no_SetColor [?g]"
    using render_no_redundant_SetColor
      [of t8x4 w8 "[]" cloud0 2 6 ?is ?fg "[SetColor [30, 40], SetColor [34, 40], ?g]" ?fg "[?g]"]
      1 2 3 4 5 by blast
  have b: "\<exists>out'. [SetColor [34, 103], ?g] = SetColor [34, 103] # out'"
    using render_no_redundant_SetColor
      [of t8x4 w8 "[]" cloud0 2 4 ?is ?is "[SetColor [34, 103], ?g]" _ _ "[34, 103]"]
      cell_2_4 6 by blast
  show ?thesis using 1 2 4 a b cell_2_4 6 by blast
qed

text \<open>
  The claim as stated covers every pair of cells with the same colour mode. In row 2 of
  the example the cells of columns 3, 4 and 5 lie in the island silhouette. The cell of
  column 3 is reached in water foreground mode and left in island mode; so is the cell
  of column 4 left, and a \<open>SetColor\<close> is printed for it all the same.
\<close>

theorem render_island_SetColor_counterexample:
  "water_update (t8x4\<lparr>ts_updated := 1\<rparr>) (Some col0)
     (Some \<lparr>cols = [], target_height = 0, island_y = 0\<rparr>) = Inr (0, Some w8) \<and>
   render_row t8x4 w8 [] cloud0 2 [0..<unat (ts_width t8x4)] \<lparr>move = 1, mode = CM_UNKNOWN\<rparr> =
     Inr (\<lparr>move = 0, mode = CM_WATER_FG\<rparr>,
      [MoveCursor 3 1, SetColor [97, 40], WriteGlyph '' @@@ '', MoveCursor 3 2,
      SetColor [34, 40], WriteGlyph [CHR 0xE2, CHR 0x96, CHR 0x81],
      WriteGlyph [CHR 0xE2, CHR 0x96, CHR 0x81], SetColor [34, 103],
      WriteGlyph [CHR 0xE2, CHR 0x96, CHR 0x81], SetColor [34, 103],
      WriteGlyph [CHR 0xE2, CHR 0x96, CHR 0x81], SetColor [34, 103],
      WriteGlyph [CHR 0xE2, CHR 0x96, CHR 0x81], SetColor [30, 40],
      SetColor [34, 40], WriteGlyph [CHR 0xE2, CHR 0x96, CHR 0x81],
      WriteGlyph [CHR 0xE2, CHR 0x96, CHR 0x81]]) \<and>
   render_cell t8x4 w8 [] cloud0 2 3 \<lparr>move = 0, mode = CM_WATER_FG\<rparr> =
     Inr (\<lparr>move = 0, mode = CM_ISLAND\<rparr>,
          [SetColor [34, 103], WriteGlyph [CHR 0xE2, CHR 0x96, CHR 0x81]]) \<and>
   render_cell t8x4 w8 [] cloud0 2 4 \<lparr>move = 0, mode = CM_ISLAND\<rparr> =
     Inr (\<lparr>move = 0, mode = CM_ISLAND\<rparr>,
          [SetColor [34, 103], WriteGlyph [CHR 0xE2, CHR 0x96, CHR 0x81]]) \<and>
   \<not> no_SetColor [SetColor [34, 103], WriteGlyph [CHR 0xE2, CHR 0x96, CHR 0x81]]"
  using w8_reached row_2 cell_2_3 cell_2_4 by simp

end
